theory Spec2Isabelle
  imports Main
begin

section \<open>Text primitives of the source language\<close>

text \<open>
  Texts are lists of characters; a character stands for a code point below 256.
  The functions of this section are the string operations that \<^verbatim>\<open>APktool.py\<close> uses:
  \<^verbatim>\<open>sub in s\<close>, \<^verbatim>\<open>s.split(sep)\<close>, \<^verbatim>\<open>sep.join(xs)\<close>, \<^verbatim>\<open>s.strip()\<close>,
  \<^verbatim>\<open>s.lower()\<close>, \<^verbatim>\<open>s.startswith(p)\<close> and the decimal rendering of a number.
\<close>

definition nl :: string where
  "nl = [CHR 0x0A]"

definition quote :: string where
  "quote = [CHR 0x27]"

definition dquote :: string where
  "dquote = [CHR 0x22]"

fun startswith :: "string \<Rightarrow> string \<Rightarrow> bool" where
  "startswith s [] = True"
| "startswith [] (p # ps) = False"
| "startswith (c # cs) (p # ps) = (c = p \<and> startswith cs ps)"

text \<open>\<^verbatim>\<open>sub in s\<close>: \<open>sub\<close> occurs in \<open>s\<close> as a contiguous block.\<close>

fun contains :: "string \<Rightarrow> string \<Rightarrow> bool" where
  "contains sub [] = (sub = [])"
| "contains sub (c # cs) = (startswith (c # cs) sub \<or> contains sub cs)"

text \<open>\<^verbatim>\<open>s.split(sep)\<close> for a one-character separator: never empty.\<close>

fun split_on :: "char \<Rightarrow> string \<Rightarrow> string list" where
  "split_on d [] = [[]]"
| "split_on d (c # cs) =
     (if c = d then [] # split_on d cs
      else (case split_on d cs of [] \<Rightarrow> [[c]] | w # ws \<Rightarrow> (c # w) # ws))"

fun join :: "string \<Rightarrow> string list \<Rightarrow> string" where
  "join sep [] = []"
| "join sep [x] = x"
| "join sep (x # y # ys) = x @ sep @ join sep (y # ys)"

text \<open>The code points below 256 for which \<^verbatim>\<open>str.isspace\<close> holds.\<close>

definition isspace :: "char \<Rightarrow> bool" where
  "isspace c = (of_char c \<in> {9, 10, 11, 12, 13, 28, 29, 30, 31, 32, 133, 160 :: nat})"

definition strip :: "string \<Rightarrow> string" where
  "strip s = rev (dropWhile isspace (rev (dropWhile isspace s)))"

text \<open>
  \<^verbatim>\<open>str.lower\<close> below 256: the letters A to Z and the capital letters of the
  Latin-1 block (192 to 222, except the multiplication sign 215) move up by 32.
\<close>

definition lower_char :: "char \<Rightarrow> char" where
  "lower_char c =
     (let n = (of_char c :: nat)
      in if (65 \<le> n \<and> n \<le> 90) \<or> (192 \<le> n \<and> n \<le> 222 \<and> n \<noteq> 215)
         then char_of (n + 32) else c)"

definition lower :: "string \<Rightarrow> string" where
  "lower s = map lower_char s"

definition digit :: "nat \<Rightarrow> char" where
  "digit n = char_of (48 + n)"

function str_nat :: "nat \<Rightarrow> string" where
  "str_nat n = (if n < 10 then [digit n] else str_nat (n div 10) @ [digit (n mod 10)])"
  by pat_completeness auto
termination
  by (relation "measure id") auto

declare str_nat.simps [simp del]

section \<open>Paths (\<^verbatim>\<open>pathlib\<close> on POSIX)\<close>

text \<open>
  A path is its root (\<open>''''\<close>, \<open>''/''\<close> or \<open>''//''\<close>) and its components.
  \<open>Path\<close> parses a text as \<^verbatim>\<open>pathlib.Path(s)\<close> does: empty components and
  \<open>''.''\<close> are dropped.
\<close>

record path =
  root :: string
  parts :: "string list"

definition path_root :: "string \<Rightarrow> string" where
  "path_root s =
     (if startswith s ''//'' \<and> \<not> startswith s ''///'' then ''//''
      else if startswith s ''/'' then ''/'' else '''')"

definition Path :: "string \<Rightarrow> path" where
  "Path s = \<lparr>root = path_root s,
             parts = filter (\<lambda>x. x \<noteq> [] \<and> x \<noteq> ''.'') (split_on (CHR ''/'') s)\<rparr>"

text \<open>\<^verbatim>\<open>str(p)\<close>\<close>

definition str_path :: "path \<Rightarrow> string" where
  "str_path p =
     (if root p = [] \<and> parts p = [] then ''.'' else root p @ join ''/'' (parts p))"

text \<open>\<^verbatim>\<open>p / s\<close>: an absolute right operand replaces the left one.\<close>

definition pjoin :: "path \<Rightarrow> string \<Rightarrow> path" where
  "pjoin p s =
     (let q = Path s
      in if root q \<noteq> [] then q else \<lparr>root = root p, parts = parts p @ parts q\<rparr>)"

text \<open>The entry \<open>n\<close> of directory \<open>p\<close>, as \<^verbatim>\<open>iterdir\<close> and \<^verbatim>\<open>rglob\<close> build it.\<close>

definition child :: "path \<Rightarrow> string \<Rightarrow> path" where
  "child p n = \<lparr>root = root p, parts = parts p @ [n]\<rparr>"

definition descend :: "path \<Rightarrow> string list \<Rightarrow> path" where
  "descend p ns = \<lparr>root = root p, parts = parts p @ ns\<rparr>"

definition path_name :: "path \<Rightarrow> string" where
  "path_name p = (if parts p = [] then [] else last (parts p))"

text \<open>
  \<^verbatim>\<open>rfind('.')\<close> as the number of characters before the last dot, and the stem:
  the name without its last suffix, when the last dot is neither first nor last.
\<close>

fun rfind_dot :: "string \<Rightarrow> nat option" where
  "rfind_dot [] = None"
| "rfind_dot (c # cs) =
     (case rfind_dot cs of
        Some i \<Rightarrow> Some (Suc i)
      | None \<Rightarrow> (if c = CHR ''.'' then Some 0 else None))"

definition stem :: "path \<Rightarrow> string" where
  "stem p =
     (let n = path_name p
      in case rfind_dot n of
           None \<Rightarrow> n
         | Some i \<Rightarrow> (if 0 < i \<and> Suc i < length n then take i n else n))"

section \<open>Exceptions, the file system and processes\<close>

text \<open>
  An exception is its class and what \<^verbatim>\<open>str(e)\<close> is built from. \<open>OSError n m\<close> is an
  exception raised by the operating system interface: \<open>n\<close> is its error number
  and \<open>m\<close> the text of the error followed, where the call names a file, by the
  file name. Its Python class is the subclass of \<^verbatim>\<open>OSError\<close> that the error number
  selects (\<^verbatim>\<open>FileNotFoundError\<close> for 2, \<^verbatim>\<open>PermissionError\<close> for 13), which no
  code of the program tells apart. \<open>FileNotFoundError m\<close> is the exception that
  the program raises itself, with a message and no error number.
\<close>

datatype exn =
    FileNotFoundError string
  | RuntimeError string
  | ValueError string
  | TypeError string
  | IndexError string
  | OSError nat string
  | UnicodeDecodeError string

text \<open>\<^verbatim>\<open>str(e)\<close>\<close>

fun str_exn :: "exn \<Rightarrow> string" where
  "str_exn (FileNotFoundError m) = m"
| "str_exn (RuntimeError m) = m"
| "str_exn (ValueError m) = m"
| "str_exn (TypeError m) = m"
| "str_exn (IndexError m) = m"
| "str_exn (OSError n m) = ''[Errno '' @ str_nat n @ ''] '' @ m"
| "str_exn (UnicodeDecodeError m) = m"

text \<open>
  What \<^verbatim>\<open>os.stat\<close> returns, as far as the program reads it. The modification time
  is a float that the program only formats; the record holds its formatted text.
  \<open>S_ISDIR\<close> tests the file type bits of the mode: \<^verbatim>\<open>(mode & 0o170000) == 0o040000\<close>.
\<close>

record stat_result =
  st_mode :: nat
  st_size :: nat
  st_mtime :: string

definition S_ISDIR :: "nat \<Rightarrow> bool" where
  "S_ISDIR mode = (mode div 4096 mod 16 = 4)"

text \<open>A finished process: exit status and the decoded output streams.\<close>

record proc =
  returncode :: int
  stdout :: string
  stderr :: string

text \<open>
  The server's two settings and its surroundings. The file system is read through
  \<open>stat\<close>, \<open>listdir\<close> (entry names), \<open>read_text\<close>, \<open>rglob\<close> (matches below a
  directory, as components relative to it) and \<open>glob\<close>; each of them returns or
  raises. \<open>spawn\<close> is the operating system's side of
  \<^verbatim>\<open>asyncio.create_subprocess_exec\<close> followed by \<^verbatim>\<open>communicate\<close>: it receives the
  argument vector and the working directory and either raises or yields the
  finished process. The file system is one snapshot for the whole of a tool call.
\<close>

record env =
  apktool_path :: string
  work_dir :: path
  stat :: "path \<Rightarrow> exn + stat_result"
  listdir :: "path \<Rightarrow> exn + string list"
  read_text :: "path \<Rightarrow> exn + string"
  rglob :: "path \<Rightarrow> string \<Rightarrow> exn + string list list"
  glob :: "path \<Rightarrow> string \<Rightarrow> exn + path list"
  spawn :: "string list \<Rightarrow> path \<Rightarrow> exn + proc"

text \<open>
  \<^verbatim>\<open>Path.exists\<close> and \<^verbatim>\<open>Path.is_dir\<close> of \<^verbatim>\<open>pathlib\<close> (CPython 3.11 and 3.12, on
  Linux). Both call \<^verbatim>\<open>stat\<close>. \<open>stat_failure\<close> is their common exception
  handling: an \<^verbatim>\<open>OSError\<close> whose error number is \<^verbatim>\<open>ENOENT\<close> (2), \<^verbatim>\<open>ENOTDIR\<close> (20),
  \<^verbatim>\<open>EBADF\<close> (9) or \<^verbatim>\<open>ELOOP\<close> (40) and every \<^verbatim>\<open>ValueError\<close> give \<^verbatim>\<open>False\<close>; every
  other exception is raised again, among them \<^verbatim>\<open>EACCES\<close> (13) and
  \<^verbatim>\<open>ENAMETOOLONG\<close> (36).
\<close>

fun stat_failure :: "exn \<Rightarrow> exn + bool" where
  "stat_failure (OSError n m) =
     (if n = 2 \<or> n = 20 \<or> n = 9 \<or> n = 40 then Inr False else Inl (OSError n m))"
| "stat_failure (ValueError m) = Inr False"
| "stat_failure (UnicodeDecodeError m) = Inr False"
| "stat_failure (FileNotFoundError m) = Inl (FileNotFoundError m)"
| "stat_failure (RuntimeError m) = Inl (RuntimeError m)"
| "stat_failure (TypeError m) = Inl (TypeError m)"
| "stat_failure (IndexError m) = Inl (IndexError m)"

definition exists :: "env \<Rightarrow> path \<Rightarrow> exn + bool" where
  "exists E p = (case stat E p of Inr st \<Rightarrow> Inr True | Inl e \<Rightarrow> stat_failure e)"

definition is_dir :: "env \<Rightarrow> path \<Rightarrow> exn + bool" where
  "is_dir E p = (case stat E p of Inr st \<Rightarrow> Inr (S_ISDIR (st_mode st)) | Inl e \<Rightarrow> stat_failure e)"

text \<open>
  A handler yields its result or exception together with the processes it spawned,
  in order: each one the argument vector and the working directory that \<open>spawn\<close>
  received. \<open>create_subprocess_exec\<close> is the only place where a process is
  created and the only place where the record is written: the call
  \<^verbatim>\<open>asyncio.create_subprocess_exec(*cmd, ..., cwd=cwd)\<close>, which needs a program as
  its first argument and hands the vector to the operating system as it is.
\<close>

type_synonym spawned = "string list \<times> path"

type_synonym 'a io = "(exn + 'a) \<times> spawned list"

definition create_subprocess_exec :: "env \<Rightarrow> string list \<Rightarrow> path \<Rightarrow> proc io" where
  "create_subprocess_exec E args cwd =
     (case args of
        [] \<Rightarrow>
          (Inl (TypeError (''create_subprocess_exec() missing 1 required positional argument: ''
                           @ quote @ ''program'' @ quote)), [])
      | program # rest \<Rightarrow> (spawn E (program # rest) cwd, [(program # rest, cwd)]))"

section \<open>The command runner\<close>

text \<open>
  \<^verbatim>\<open>_run_command\<close>. \<open>run_command_try\<close> is the body of its \<^verbatim>\<open>try\<close> block. The inner
  \<^verbatim>\<open>raise RuntimeError("Command failed: ...")\<close> is inside that block, so the
  \<^verbatim>\<open>except Exception\<close> clause wraps it like any exception of the spawn.
\<close>

definition run_command_try :: "env \<Rightarrow> string list \<Rightarrow> path \<Rightarrow> string io" where
  "run_command_try E cmd cwd =
     (case create_subprocess_exec E cmd cwd of
        (Inl e, log) \<Rightarrow> (Inl e, log)
      | (Inr process, log) \<Rightarrow>
          (let output = stdout process; error = stderr process
           in (if returncode process \<noteq> 0
               then Inl (RuntimeError (''Command failed: '' @ join '' '' cmd @ nl
                                       @ ''Error: '' @ error))
               else Inr (if output \<noteq> [] then output else error), log)))"

definition run_command :: "env \<Rightarrow> string list \<Rightarrow> path option \<Rightarrow> string io" where
  "run_command E cmd cwd =
     (case run_command_try E cmd (case cwd of Some d \<Rightarrow> d | None \<Rightarrow> work_dir E) of
        (Inr out, log) \<Rightarrow> (Inr out, log)
      | (Inl e, log) \<Rightarrow>
          (Inl (RuntimeError (''Failed to execute command: '' @ join '' '' cmd @ nl
                              @ ''Error: '' @ str_exn e)), log))"

section \<open>The tool handlers\<close>

text \<open>\<^verbatim>\<open>_decode_apk\<close>\<close>

definition decode_apk :: "env \<Rightarrow> string \<Rightarrow> string option \<Rightarrow> bool \<Rightarrow> bool \<Rightarrow> bool \<Rightarrow> string io" where
  "decode_apk E apk_path output_dir force no_res no_src =
     (let apk_file = Path apk_path
      in case exists E apk_file of
           Inl e \<Rightarrow> (Inl e, [])
         | Inr found \<Rightarrow>
             if \<not> found
             then (Inl (FileNotFoundError (''APK file not found: '' @ apk_path)), [])
             else
               (let output_dir' = (case output_dir of
                                     None \<Rightarrow> stem apk_file
                                   | Some d \<Rightarrow> (if d = [] then stem apk_file else d));
                    output_path = pjoin (work_dir E) output_dir';
                    cmd = [apktool_path E, ''d'', str_path apk_file]
                          @ (if force then [''-f''] else [])
                          @ (if no_res then [''-r''] else [])
                          @ (if no_src then [''-s''] else [])
                          @ [''-o'', str_path output_path]
                in (case run_command E cmd None of
                      (Inl e, log) \<Rightarrow> (Inl e, log)
                    | (Inr result, log) \<Rightarrow>
                        (Inr (''Successfully decompiled APK to: '' @ str_path output_path
                              @ nl @ nl @ ''Output:'' @ nl @ result), log))))"

text \<open>\<^verbatim>\<open>_build_apk\<close>\<close>

definition build_apk :: "env \<Rightarrow> string \<Rightarrow> string option \<Rightarrow> bool \<Rightarrow> string io" where
  "build_apk E source_dir output_apk force =
     (let source_path = Path source_dir
      in case exists E source_path of
           Inl e \<Rightarrow> (Inl e, [])
         | Inr found \<Rightarrow>
             if \<not> found
             then (Inl (FileNotFoundError (''Source directory not found: '' @ source_dir)), [])
             else
               (let cmd = [apktool_path E, ''b'', str_path source_path]
                          @ (if force then [''-f''] else [])
                          @ (case output_apk of
                               None \<Rightarrow> []
                             | Some a \<Rightarrow> (if a \<noteq> [] then [''-o'', a] else []))
                in (case run_command E cmd None of
                      (Inl e, log) \<Rightarrow> (Inl e, log)
                    | (Inr result, log) \<Rightarrow>
                        (Inr (''Successfully built APK from: '' @ str_path source_path
                              @ nl @ nl @ ''Output:'' @ nl @ result), log))))"

text \<open>\<^verbatim>\<open>_install_framework\<close>\<close>

definition install_framework :: "env \<Rightarrow> string \<Rightarrow> string option \<Rightarrow> string io" where
  "install_framework E framework_path tag =
     (let framework_file = Path framework_path
      in case exists E framework_file of
           Inl e \<Rightarrow> (Inl e, [])
         | Inr found \<Rightarrow>
             if \<not> found
             then (Inl (FileNotFoundError (''Framework file not found: '' @ framework_path)), [])
             else
               (let cmd = [apktool_path E, ''if'', str_path framework_file]
                          @ (case tag of
                               None \<Rightarrow> []
                             | Some t \<Rightarrow> (if t \<noteq> [] then [''-t'', t] else []))
                in (case run_command E cmd None of
                      (Inl e, log) \<Rightarrow> (Inl e, log)
                    | (Inr result, log) \<Rightarrow>
                        (Inr (''Successfully installed framework: '' @ framework_path
                              @ nl @ nl @ ''Output:'' @ nl @ result), log))))"

text \<open>
  \<^verbatim>\<open>_analyze_manifest\<close>. \<open>classify\<close> is the \<^verbatim>\<open>if\<close>/\<^verbatim>\<open>elif\<close> chain of the loop body,
  applied to the stripped line: the first branch that matches decides.
\<close>

definition classify :: "string \<Rightarrow> string option" where
  "classify line =
     (if contains ''package='' line then Some (''Package: '' @ line)
      else if contains ''android:name='' line \<and> contains ''activity'' (lower line)
      then Some (''Activity: '' @ line)
      else if contains ''android:name='' line \<and> contains ''service'' (lower line)
      then Some (''Service: '' @ line)
      else if contains ''android:name='' line \<and> contains ''receiver'' (lower line)
      then Some (''Receiver: '' @ line)
      else if contains ''uses-permission'' line then Some (''Permission: '' @ line)
      else None)"

fun analyze_lines :: "string list \<Rightarrow> string list" where
  "analyze_lines [] = []"
| "analyze_lines (l # ls) =
     (case classify (strip l) of
        None \<Rightarrow> analyze_lines ls
      | Some a \<Rightarrow> a # analyze_lines ls)"

definition analyze_manifest :: "env \<Rightarrow> string \<Rightarrow> string io" where
  "analyze_manifest E apk_dir =
     (let manifest_path = pjoin (Path apk_dir) ''AndroidManifest.xml''
      in case exists E manifest_path of
           Inl e \<Rightarrow> (Inl e, [])
         | Inr found \<Rightarrow>
             if \<not> found
             then (Inl (FileNotFoundError (''AndroidManifest.xml not found in: '' @ apk_dir)), [])
             else
               (case read_text E manifest_path of
                  Inl e \<Rightarrow> (Inl e, [])
                | Inr content \<Rightarrow>
                    (let analysis = analyze_lines (split_on (CHR 0x0A) content);
                         analysis_text = (if analysis \<noteq> [] then join nl analysis
                                          else ''No key elements found'')
                     in (Inr (''AndroidManifest.xml Analysis:'' @ nl @ nl @ analysis_text
                              @ nl @ nl @ ''Full content:'' @ nl @ content), []))))"

text \<open>\<^verbatim>\<open>_extract_strings\<close>; \<open>read_strings\<close> is its loop over the matched files.\<close>

fun read_strings :: "env \<Rightarrow> path list \<Rightarrow> exn + string list" where
  "read_strings E [] = Inr []"
| "read_strings E (strings_file # fs) =
     (case read_text E strings_file of
        Inl e \<Rightarrow> Inl e
      | Inr content \<Rightarrow>
          (case read_strings E fs of
             Inl e \<Rightarrow> Inl e
           | Inr rest \<Rightarrow>
               Inr ((nl @ ''--- '' @ path_name strings_file @ '' ---'' @ nl @ content) # rest)))"

definition extract_strings :: "env \<Rightarrow> string \<Rightarrow> string \<Rightarrow> string io" where
  "extract_strings E apk_dir locale =
     (let res_dir = pjoin (Path apk_dir) ''res''
      in case exists E res_dir of
           Inl e \<Rightarrow> (Inl e, [])
         | Inr found \<Rightarrow>
             if \<not> found
             then (Inl (FileNotFoundError (''Resources directory not found: ''
                                           @ str_path res_dir)), [])
             else
               (case (if locale \<noteq> [] then glob E res_dir (''values-'' @ locale @ ''/strings.xml'')
                      else glob E res_dir ''values*/strings.xml'') of
                  Inl e \<Rightarrow> (Inl e, [])
                | Inr strings_files \<Rightarrow>
                    (if strings_files = []
                     then (Inr (''No string files found for locale: ''
                                @ (if locale \<noteq> [] then locale else ''default'')), [])
                     else
                       (case read_strings E strings_files of
                          Inl e \<Rightarrow> (Inl e, [])
                        | Inr all_strings \<Rightarrow>
                            (Inr (''Extracted strings from '' @ str_nat (length strings_files)
                                  @ '' files:'' @ nl @ concat all_strings), [])))))"

text \<open>\<^verbatim>\<open>_list_permissions\<close>\<close>

definition list_permissions :: "env \<Rightarrow> string \<Rightarrow> string io" where
  "list_permissions E apk_dir =
     (let manifest_path = pjoin (Path apk_dir) ''AndroidManifest.xml''
      in case exists E manifest_path of
           Inl e \<Rightarrow> (Inl e, [])
         | Inr found \<Rightarrow>
             if \<not> found
             then (Inl (FileNotFoundError (''AndroidManifest.xml not found in: '' @ apk_dir)), [])
             else
               (case read_text E manifest_path of
                  Inl e \<Rightarrow> (Inl e, [])
                | Inr content \<Rightarrow>
                    (let permissions = map strip (filter (contains ''uses-permission'')
                                                         (split_on (CHR 0x0A) content))
                     in if permissions = []
                        then (Inr ''No permissions found in AndroidManifest.xml'', [])
                        else (Inr (''Found '' @ str_nat (length permissions) @ '' permissions:''
                                   @ nl @ nl @ join nl permissions), []))))"

text \<open>
  \<^verbatim>\<open>_find_smali_references\<close>. \<open>smali_dirs\<close> is its first loop, over the entries of
  the project directory in the order of the listing: \<^verbatim>\<open>item.is_dir()\<close> is
  evaluated for every entry, and an exception of it ends the handler.
  \<open>smali_files\<close> collects what \<^verbatim>\<open>rglob\<close> yields for the directories in turn; an
  exception of \<^verbatim>\<open>rglob\<close> is outside the \<^verbatim>\<open>try\<close> block and ends the handler too.
  \<open>relative_to\<close> is \<^verbatim>\<open>Path.relative_to\<close>; \<open>folded\<close> is the text in which the search
  looks (\<^verbatim>\<open>x if case_sensitive else x.lower()\<close>); \<open>file_matches\<close> is the body of
  the inner loop for one file, whose \<^verbatim>\<open>except Exception: continue\<close> skips a file
  that cannot be read.
\<close>

fun smali_dirs :: "env \<Rightarrow> path list \<Rightarrow> exn + path list" where
  "smali_dirs E [] = Inr []"
| "smali_dirs E (item # items) =
     (case is_dir E item of
        Inl e \<Rightarrow> Inl e
      | Inr d \<Rightarrow>
          (case smali_dirs E items of
             Inl e \<Rightarrow> Inl e
           | Inr rest \<Rightarrow>
               Inr (if d \<and> startswith (path_name item) ''smali'' then item # rest else rest)))"

fun smali_files :: "env \<Rightarrow> path list \<Rightarrow> exn + path list" where
  "smali_files E [] = Inr []"
| "smali_files E (smali_dir # dirs) =
     (case rglob E smali_dir ''*.smali'' of
        Inl e \<Rightarrow> Inl e
      | Inr found \<Rightarrow>
          (case smali_files E dirs of
             Inl e \<Rightarrow> Inl e
           | Inr rest \<Rightarrow> Inr (map (descend smali_dir) found @ rest)))"

fun is_prefix :: "string list \<Rightarrow> string list \<Rightarrow> bool" where
  "is_prefix [] ys = True"
| "is_prefix (x # xs) [] = False"
| "is_prefix (x # xs) (y # ys) = (x = y \<and> is_prefix xs ys)"

definition relative_to :: "path \<Rightarrow> path \<Rightarrow> exn + path" where
  "relative_to p other =
     (if root p = root other \<and> is_prefix (parts other) (parts p)
      then Inr \<lparr>root = [], parts = drop (length (parts other)) (parts p)\<rparr>
      else Inl (ValueError (quote @ str_path p @ quote @ '' is not in the subpath of ''
                            @ quote @ str_path other @ quote)))"

definition folded :: "bool \<Rightarrow> string \<Rightarrow> string" where
  "folded case_sensitive s = (if case_sensitive then s else lower s)"

definition line_matches :: "bool \<Rightarrow> string \<Rightarrow> string \<Rightarrow> bool" where
  "line_matches case_sensitive pattern line =
     contains (folded case_sensitive pattern) (folded case_sensitive line)"

definition format_match :: "path \<Rightarrow> nat \<Rightarrow> string \<Rightarrow> string" where
  "format_match rel i line = str_path rel @ '':'' @ str_nat i @ '': '' @ strip line"

definition file_matches :: "env \<Rightarrow> path \<Rightarrow> string \<Rightarrow> bool \<Rightarrow> path \<Rightarrow> string list" where
  "file_matches E apk_path pattern case_sensitive smali_file =
     (case read_text E smali_file of
        Inl e \<Rightarrow> []
      | Inr content \<Rightarrow>
          (if contains (folded case_sensitive pattern) (folded case_sensitive content)
           then
             (let hits = filter (\<lambda>(i, line). line_matches case_sensitive pattern line)
                                (List.enumerate 1 (split_on (CHR 0x0A) content))
              in (case relative_to smali_file apk_path of
                    Inl e \<Rightarrow> []
                  | Inr rel \<Rightarrow> map (\<lambda>(i, line). format_match rel i line) hits))
           else []))"

definition find_smali_references :: "env \<Rightarrow> string \<Rightarrow> string \<Rightarrow> bool \<Rightarrow> string io" where
  "find_smali_references E apk_dir pattern case_sensitive =
     (let apk_path = Path apk_dir
      in case listdir E apk_path of
           Inl e \<Rightarrow> (Inl e, [])
         | Inr names \<Rightarrow>
             (case smali_dirs E (map (child apk_path) names) of
                Inl e \<Rightarrow> (Inl e, [])
              | Inr dirs \<Rightarrow>
                  if dirs = [] then (Inr ''No smali directories found'', [])
                  else
                    (case smali_files E dirs of
                       Inl e \<Rightarrow> (Inl e, [])
                     | Inr files \<Rightarrow>
                         (let matches = concat (map (file_matches E apk_path pattern
                                                        case_sensitive) files)
                          in if matches = []
                             then (Inr (''Pattern '' @ quote @ pattern @ quote
                                        @ '' not found in smali code''), [])
                             else (Inr (''Found '' @ str_nat (length matches)
                                        @ '' matches for '' @ quote @ pattern @ quote @ '':''
                                        @ nl @ nl @ join nl (take 50 matches)), [])))))"

text \<open>
  \<^verbatim>\<open>_get_apk_info\<close>: the bare \<^verbatim>\<open>except:\<close> turns every failure of the command runner
  into the report built from \<^verbatim>\<open>stat\<close>.
\<close>

definition get_apk_info :: "env \<Rightarrow> string \<Rightarrow> string io" where
  "get_apk_info E apk_path =
     (let apk_file = Path apk_path
      in case exists E apk_file of
           Inl e \<Rightarrow> (Inl e, [])
         | Inr found \<Rightarrow>
             if \<not> found
             then (Inl (FileNotFoundError (''APK file not found: '' @ apk_path)), [])
             else
               (let cmd = [''aapt'', ''dump'', ''badging'', str_path apk_file]
                in (case run_command E cmd None of
                      (Inr result, log) \<Rightarrow> (Inr (''APK Information:'' @ nl @ nl @ result), log)
                    | (Inl e, log) \<Rightarrow>
                        (case stat E apk_file of
                           Inl e' \<Rightarrow> (Inl e', log)
                         | Inr st \<Rightarrow>
                             (Inr (''APK File Information:'' @ nl
                                   @ ''Path: '' @ str_path apk_file @ nl
                                   @ ''Size: '' @ str_nat (st_size st) @ '' bytes'' @ nl
                                   @ ''Modified: '' @ st_mtime st @ nl
                                   @ ''Note: aapt not available for detailed analysis''), log)))))"

section \<open>Tool dispatch\<close>

text \<open>
  The arguments of a request are a dictionary from names to JSON values, kept as
  an association list in the dictionary's order. The values are the two kinds
  that the input schemas declare, strings and booleans.
\<close>

datatype pyval = VStr string | VBool bool

type_synonym arguments = "(string \<times> pyval) list"

text \<open>
  The call \<^verbatim>\<open>self._handler(**arguments)\<close> of a bound method (CPython 3.11 and 3.12).
  \<open>params\<close> are the parameters after \<^verbatim>\<open>self\<close>, which is bound by position. The
  interpreter takes the keywords in the dictionary's order and stops at the first
  one that it cannot bind: \<^verbatim>\<open>self\<close>, which has a value already, or a name that is
  no parameter. Then it reports the required parameters that are absent, in the
  order of the signature; only then does the body of the handler run.
\<close>

fun format_missing :: "string list \<Rightarrow> string" where
  "format_missing [] = []"
| "format_missing [a] = quote @ a @ quote"
| "format_missing [a, b] = quote @ a @ quote @ '' and '' @ quote @ b @ quote"
| "format_missing (a # b # c # ns) =
     join '', '' (map (\<lambda>n. quote @ n @ quote) (butlast (a # b # c # ns)))
     @ '', and '' @ quote @ last (c # ns) @ quote"

definition bind_kwargs ::
  "string \<Rightarrow> string list \<Rightarrow> string list \<Rightarrow> arguments \<Rightarrow> exn + (string \<Rightarrow> pyval option)" where
  "bind_kwargs fname params required arguments =
     (case find (\<lambda>k. k = ''self'' \<or> k \<notin> set params) (map fst arguments) of
        Some k \<Rightarrow>
          (if k = ''self''
           then Inl (TypeError (fname @ ''() got multiple values for argument ''
                                @ quote @ k @ quote))
           else Inl (TypeError (fname @ ''() got an unexpected keyword argument ''
                                @ quote @ k @ quote)))
      | None \<Rightarrow>
          (let missing = filter (\<lambda>r. r \<notin> set (map fst arguments)) required
           in if missing = [] then Inr (map_of arguments)
              else Inl (TypeError (fname @ ''() missing '' @ str_nat (length missing)
                          @ '' required positional argument''
                          @ (if length missing = 1 then [] else ''s'')
                          @ '': '' @ format_missing missing))))"

text \<open>
  Reading a bound parameter at the type its annotation gives. The outer \<open>None\<close>
  marks a value of the other kind: such a request lies outside this development.
\<close>

definition req_str :: "(string \<Rightarrow> pyval option) \<Rightarrow> string \<Rightarrow> string option" where
  "req_str kw k = (case kw k of Some (VStr s) \<Rightarrow> Some s | _ \<Rightarrow> None)"

definition opt_str :: "(string \<Rightarrow> pyval option) \<Rightarrow> string \<Rightarrow> string option option" where
  "opt_str kw k =
     (case kw k of None \<Rightarrow> Some None | Some (VStr s) \<Rightarrow> Some (Some s) | Some (VBool b) \<Rightarrow> None)"

definition str_or :: "string \<Rightarrow> (string \<Rightarrow> pyval option) \<Rightarrow> string \<Rightarrow> string option" where
  "str_or d kw k =
     (case kw k of None \<Rightarrow> Some d | Some (VStr s) \<Rightarrow> Some s | Some (VBool b) \<Rightarrow> None)"

definition bool_or :: "bool \<Rightarrow> (string \<Rightarrow> pyval option) \<Rightarrow> string \<Rightarrow> bool option" where
  "bool_or d kw k =
     (case kw k of None \<Rightarrow> Some d | Some (VBool b) \<Rightarrow> Some b | Some (VStr s) \<Rightarrow> None)"

text \<open>The eight calls \<^verbatim>\<open>self._handler(**arguments)\<close> of \<^verbatim>\<open>call_tool\<close>.\<close>

definition call_decode_apk :: "env \<Rightarrow> arguments \<Rightarrow> string io option" where
  "call_decode_apk E arguments =
     (case bind_kwargs ''ApktoolMCPServer._decode_apk''
             [''apk_path'', ''output_dir'', ''force'', ''no_res'', ''no_src'']
             [''apk_path''] arguments of
        Inl e \<Rightarrow> Some (Inl e, [])
      | Inr kw \<Rightarrow>
          (case (req_str kw ''apk_path'', opt_str kw ''output_dir'', bool_or False kw ''force'',
                 bool_or False kw ''no_res'', bool_or False kw ''no_src'') of
             (Some apk_path, Some output_dir, Some force, Some no_res, Some no_src) \<Rightarrow>
               Some (decode_apk E apk_path output_dir force no_res no_src)
           | _ \<Rightarrow> None))"

definition call_build_apk :: "env \<Rightarrow> arguments \<Rightarrow> string io option" where
  "call_build_apk E arguments =
     (case bind_kwargs ''ApktoolMCPServer._build_apk''
             [''source_dir'', ''output_apk'', ''force''] [''source_dir''] arguments of
        Inl e \<Rightarrow> Some (Inl e, [])
      | Inr kw \<Rightarrow>
          (case (req_str kw ''source_dir'', opt_str kw ''output_apk'', bool_or False kw ''force'') of
             (Some source_dir, Some output_apk, Some force) \<Rightarrow>
               Some (build_apk E source_dir output_apk force)
           | _ \<Rightarrow> None))"

definition call_install_framework :: "env \<Rightarrow> arguments \<Rightarrow> string io option" where
  "call_install_framework E arguments =
     (case bind_kwargs ''ApktoolMCPServer._install_framework''
             [''framework_path'', ''tag''] [''framework_path''] arguments of
        Inl e \<Rightarrow> Some (Inl e, [])
      | Inr kw \<Rightarrow>
          (case (req_str kw ''framework_path'', opt_str kw ''tag'') of
             (Some framework_path, Some tag) \<Rightarrow> Some (install_framework E framework_path tag)
           | _ \<Rightarrow> None))"

definition call_analyze_manifest :: "env \<Rightarrow> arguments \<Rightarrow> string io option" where
  "call_analyze_manifest E arguments =
     (case bind_kwargs ''ApktoolMCPServer._analyze_manifest'' [''apk_dir''] [''apk_dir''] arguments of
        Inl e \<Rightarrow> Some (Inl e, [])
      | Inr kw \<Rightarrow>
          (case req_str kw ''apk_dir'' of
             Some apk_dir \<Rightarrow> Some (analyze_manifest E apk_dir)
           | None \<Rightarrow> None))"

definition call_extract_strings :: "env \<Rightarrow> arguments \<Rightarrow> string io option" where
  "call_extract_strings E arguments =
     (case bind_kwargs ''ApktoolMCPServer._extract_strings''
             [''apk_dir'', ''locale''] [''apk_dir''] arguments of
        Inl e \<Rightarrow> Some (Inl e, [])
      | Inr kw \<Rightarrow>
          (case (req_str kw ''apk_dir'', str_or [] kw ''locale'') of
             (Some apk_dir, Some locale) \<Rightarrow> Some (extract_strings E apk_dir locale)
           | _ \<Rightarrow> None))"

definition call_list_permissions :: "env \<Rightarrow> arguments \<Rightarrow> string io option" where
  "call_list_permissions E arguments =
     (case bind_kwargs ''ApktoolMCPServer._list_permissions'' [''apk_dir''] [''apk_dir''] arguments of
        Inl e \<Rightarrow> Some (Inl e, [])
      | Inr kw \<Rightarrow>
          (case req_str kw ''apk_dir'' of
             Some apk_dir \<Rightarrow> Some (list_permissions E apk_dir)
           | None \<Rightarrow> None))"

definition call_find_smali_references :: "env \<Rightarrow> arguments \<Rightarrow> string io option" where
  "call_find_smali_references E arguments =
     (case bind_kwargs ''ApktoolMCPServer._find_smali_references''
             [''apk_dir'', ''pattern'', ''case_sensitive''] [''apk_dir'', ''pattern''] arguments of
        Inl e \<Rightarrow> Some (Inl e, [])
      | Inr kw \<Rightarrow>
          (case (req_str kw ''apk_dir'', req_str kw ''pattern'', bool_or True kw ''case_sensitive'') of
             (Some apk_dir, Some pattern, Some case_sensitive) \<Rightarrow>
               Some (find_smali_references E apk_dir pattern case_sensitive)
           | _ \<Rightarrow> None))"

definition call_get_apk_info :: "env \<Rightarrow> arguments \<Rightarrow> string io option" where
  "call_get_apk_info E arguments =
     (case bind_kwargs ''ApktoolMCPServer._get_apk_info'' [''apk_path''] [''apk_path''] arguments of
        Inl e \<Rightarrow> Some (Inl e, [])
      | Inr kw \<Rightarrow>
          (case req_str kw ''apk_path'' of
             Some apk_path \<Rightarrow> Some (get_apk_info E apk_path)
           | None \<Rightarrow> None))"

text \<open>
  \<^verbatim>\<open>call_tool\<close>. \<open>dispatch\<close> is the body of its \<^verbatim>\<open>try\<close> block, over the eight
  handler calls; \<open>call_tool_with\<close> adds the two exits, the result wrapped as text and
  the \<^verbatim>\<open>except Exception\<close> clause. An outcome is the \<^verbatim>\<open>CallToolResult\<close>: its text (\<open>out_text\<close>) and
  its error flag.
\<close>

record handlers =
  h_decode_apk :: "arguments \<Rightarrow> string io option"
  h_build_apk :: "arguments \<Rightarrow> string io option"
  h_install_framework :: "arguments \<Rightarrow> string io option"
  h_analyze_manifest :: "arguments \<Rightarrow> string io option"
  h_extract_strings :: "arguments \<Rightarrow> string io option"
  h_list_permissions :: "arguments \<Rightarrow> string io option"
  h_find_smali_references :: "arguments \<Rightarrow> string io option"
  h_get_apk_info :: "arguments \<Rightarrow> string io option"

record outcome =
  out_text :: string
  isError :: bool

definition dispatch :: "handlers \<Rightarrow> string \<Rightarrow> arguments \<Rightarrow> string io option" where
  "dispatch H name arguments =
     (if name = ''decode_apk'' then h_decode_apk H arguments
      else if name = ''build_apk'' then h_build_apk H arguments
      else if name = ''install_framework'' then h_install_framework H arguments
      else if name = ''analyze_manifest'' then h_analyze_manifest H arguments
      else if name = ''extract_strings'' then h_extract_strings H arguments
      else if name = ''list_permissions'' then h_list_permissions H arguments
      else if name = ''find_smali_references'' then h_find_smali_references H arguments
      else if name = ''get_apk_info'' then h_get_apk_info H arguments
      else Some (Inl (ValueError (''Unknown tool: '' @ name)), []))"

definition call_tool_with ::
  "handlers \<Rightarrow> string \<Rightarrow> arguments \<Rightarrow> (outcome \<times> spawned list) option" where
  "call_tool_with H name arguments =
     (case dispatch H name arguments of
        None \<Rightarrow> None
      | Some (Inr result, log) \<Rightarrow> Some (\<lparr>out_text = result, isError = False\<rparr>, log)
      | Some (Inl e, log) \<Rightarrow>
          Some (\<lparr>out_text = ''Error executing '' @ name @ '': '' @ str_exn e, isError = True\<rparr>, log))"

definition server_handlers :: "env \<Rightarrow> handlers" where
  "server_handlers E =
     \<lparr>h_decode_apk = call_decode_apk E,
      h_build_apk = call_build_apk E,
      h_install_framework = call_install_framework E,
      h_analyze_manifest = call_analyze_manifest E,
      h_extract_strings = call_extract_strings E,
      h_list_permissions = call_list_permissions E,
      h_find_smali_references = call_find_smali_references E,
      h_get_apk_info = call_get_apk_info E\<rparr>"

definition call_tool :: "env \<Rightarrow> string \<Rightarrow> arguments \<Rightarrow> (outcome \<times> spawned list) option" where
  "call_tool E name arguments = call_tool_with (server_handlers E) name arguments"

text \<open>The names of \<^verbatim>\<open>list_tools\<close> with the \<^verbatim>\<open>required\<close> list of each input schema.\<close>

definition tool_required :: "(string \<times> string list) list" where
  "tool_required =
     [(''decode_apk'', [''apk_path'']),
      (''build_apk'', [''source_dir'']),
      (''install_framework'', [''framework_path'']),
      (''analyze_manifest'', [''apk_dir'']),
      (''extract_strings'', [''apk_dir'']),
      (''list_permissions'', [''apk_dir'']),
      (''find_smali_references'', [''apk_dir'', ''pattern'']),
      (''get_apk_info'', [''apk_path''])]"

definition tool_names :: "string list" where
  "tool_names = map fst tool_required"

text \<open>
  The properties that each tool's input schema declares. They are the parameters
  of the tool's handler after \<^verbatim>\<open>self\<close>, in the order of its signature; \<^verbatim>\<open>self\<close>
  is a parameter of every handler and a property of no schema.
\<close>

definition tool_params :: "(string \<times> string list) list" where
  "tool_params =
     [(''decode_apk'', [''apk_path'', ''output_dir'', ''force'', ''no_res'', ''no_src'']),
      (''build_apk'', [''source_dir'', ''output_apk'', ''force'']),
      (''install_framework'', [''framework_path'', ''tag'']),
      (''analyze_manifest'', [''apk_dir'']),
      (''extract_strings'', [''apk_dir'', ''locale'']),
      (''list_permissions'', [''apk_dir'']),
      (''find_smali_references'', [''apk_dir'', ''pattern'', ''case_sensitive'']),
      (''get_apk_info'', [''apk_path''])]"

section \<open>Reading a resource\<close>




section \<open>Concrete surroundings\<close>

text \<open>
  A small workspace \<open>/w\<close> with the project \<open>app\<close>, an APK whose name holds a blank
  and a semicolon, a decoded project \<open>/proj\<close> with a manifest and one smali file, a
  project \<open>/svc\<close> whose manifest is one permission line, a project \<open>/many\<close> with
  a smali file of 60 equal lines, a directory \<open>/bare\<close> without smali directories,
  and a directory \<open>/locked\<close> that can be listed while its entries cannot be
  examined. The process behaviour is a
  parameter; \<open>spawn_echo\<close> is a process that prints the vector it received, one
  element after the other with a bar between them.
\<close>

definition demo_file_stat :: stat_result where
  "demo_file_stat = \<lparr>st_mode = 33188, st_size = 2048, st_mtime = ''1700000000.5''\<rparr>"

definition demo_dir_stat :: stat_result where
  "demo_dir_stat = \<lparr>st_mode = 16877, st_size = 4096, st_mtime = ''1700000000.5''\<rparr>"

definition permission_line :: string where
  "permission_line = ''<uses-permission android:name='' @ dquote @ ''X'' @ dquote @ ''/>''"

definition activity_line :: string where
  "activity_line = ''<activity android:name='' @ dquote @ ''.Main'' @ dquote @ ''/>''"

definition package_line :: string where
  "package_line = ''<manifest package='' @ dquote @ ''com.example'' @ dquote @ ''>''"

definition receiver_line :: string where
  "receiver_line = ''<receiver android:name='' @ dquote @ ''.Boot'' @ dquote @ ''/>''"

definition foreground_service_line :: string where
  "foreground_service_line =
     ''<uses-permission android:name='' @ dquote @ ''android.permission.FOREGROUND_SERVICE''
     @ dquote @ ''/>''"

definition demo_manifest :: string where
  "demo_manifest = permission_line @ nl @ activity_line"

definition demo_smali :: string where
  "demo_smali = ''invoke-virtual Foo'' @ nl @ ''nop'' @ nl @ ''  const-string FOO  ''"

definition demo_many :: string where
  "demo_many = join nl (replicate 60 ''    const-string v0, key'')"

definition no_entry :: exn where
  "no_entry = OSError 2 ''No such file or directory''"

definition denied :: exn where
  "denied = OSError 13 ''Permission denied''"

definition demo_env :: "(string list \<Rightarrow> path \<Rightarrow> exn + proc) \<Rightarrow> env" where
  "demo_env sp =
     \<lparr>apktool_path = ''apktool'',
      work_dir = Path ''/w'',
      stat = (\<lambda>p. if p \<in> set (map Path [''/in/a b;c.apk'', ''/proj/AndroidManifest.xml'',
                                          ''/proj/smali/com/A.smali'', ''/bare/smali.txt'',
                                          ''/w/app/AndroidManifest.xml'', ''/svc/AndroidManifest.xml'',
                                          ''/many/smali/B.smali''])
                  then Inr demo_file_stat
                  else if p \<in> set (map Path [''/proj'', ''/proj/smali'', ''/bare'', ''/bare/res'',
                                               ''/locked'', ''/svc'', ''/many'', ''/many/smali''])
                  then Inr demo_dir_stat
                  else if p \<in> set (map Path [''/locked/res'', ''/locked/a.apk''])
                  then Inl denied
                  else Inl no_entry),
      listdir = (\<lambda>p. if p = Path ''/proj'' then Inr [''AndroidManifest.xml'', ''smali'']
                     else if p = Path ''/bare'' then Inr [''res'', ''smali.txt'']
                     else if p = Path ''/locked'' then Inr [''res'']
                     else if p = Path ''/many'' then Inr [''smali'']
                     else Inl no_entry),
      read_text = (\<lambda>p. if p = Path ''/proj/AndroidManifest.xml'' \<or> p = Path ''/w/app/AndroidManifest.xml''
                       then Inr demo_manifest
                       else if p = Path ''/svc/AndroidManifest.xml'' then Inr foreground_service_line
                       else if p = Path ''/proj/smali/com/A.smali'' then Inr demo_smali
                       else if p = Path ''/many/smali/B.smali'' then Inr demo_many
                       else Inl no_entry),
      rglob = (\<lambda>p pat. if p = Path ''/proj/smali'' \<and> pat = ''*.smali''
                       then Inr [[''com'', ''A.smali'']]
                       else if p = Path ''/many/smali'' \<and> pat = ''*.smali''
                       then Inr [[''B.smali'']]
                       else Inr []),
      glob = (\<lambda>p pat. Inr []),
      spawn = sp\<rparr>"

definition spawn_ok :: "string list \<Rightarrow> path \<Rightarrow> exn + proc" where
  "spawn_ok cmd cwd = Inr \<lparr>returncode = 0, stdout = ''done'', stderr = []\<rparr>"

definition spawn_echo :: "string list \<Rightarrow> path \<Rightarrow> exn + proc" where
  "spawn_echo cmd cwd = Inr \<lparr>returncode = 0, stdout = join ''|'' cmd, stderr = []\<rparr>"

definition spawn_exit1 :: "string list \<Rightarrow> path \<Rightarrow> exn + proc" where
  "spawn_exit1 cmd cwd = Inr \<lparr>returncode = 1, stdout = ''boom'', stderr = []\<rparr>"

definition spawn_missing :: "string list \<Rightarrow> path \<Rightarrow> exn + proc" where
  "spawn_missing cmd cwd = Inl no_entry"

section \<open>Facts about the text primitives\<close>

lemma startswith_iff: "startswith s p \<longleftrightarrow> (\<exists>t. s = p @ t)"
  by (induction s p rule: startswith.induct) auto

lemma contains_iff: "contains sub s \<longleftrightarrow> (\<exists>a b. s = a @ sub @ b)"
proof (induction s)
  case Nil
  then show ?case by auto
next
  case (Cons c cs)
  show ?case
  proof
    assume "contains sub (c # cs)"
    then consider "startswith (c # cs) sub" | "contains sub cs" by auto
    then show "\<exists>a b. c # cs = a @ sub @ b"
    proof cases
      case 1
      then obtain t where "c # cs = sub @ t" by (auto simp: startswith_iff)
      then have "c # cs = [] @ sub @ t" by simp
      then show ?thesis by blast
    next
      case 2
      then obtain a b where "cs = a @ sub @ b" using Cons.IH by blast
      then have "c # cs = (c # a) @ sub @ b" by simp
      then show ?thesis by blast
    qed
  next
    assume "\<exists>a b. c # cs = a @ sub @ b"
    then obtain a b where ab: "c # cs = a @ sub @ b" by blast
    show "contains sub (c # cs)"
    proof (cases a)
      case Nil
      with ab have "startswith (c # cs) sub" by (auto simp: startswith_iff)
      then show ?thesis by simp
    next
      case (Cons x a')
      with ab have "cs = a' @ sub @ b" by simp
      then have "contains sub cs" using Cons.IH by blast
      then show ?thesis by simp
    qed
  qed
qed

lemma contains_map: "contains sub s \<Longrightarrow> contains (map f sub) (map f s)"
  unfolding contains_iff by (metis map_append)

lemma contains_trans: "contains p l \<Longrightarrow> contains l s \<Longrightarrow> contains p s"
  unfolding contains_iff by (metis append.assoc)

lemma split_on_nonempty: "split_on d s \<noteq> []"
  by (induction s) (auto split: list.splits)




lemma join_Cons_Cons: "join sep ((c # w) # ws) = c # join sep (w # ws)"
  by (cases ws) auto

lemma join_split_on: "join [d] (split_on d s) = s"
proof (induction s)
  case Nil
  then show ?case by simp
next
  case (Cons c cs)
  obtain w ws where ws: "split_on d cs = w # ws"
    using split_on_nonempty by (cases "split_on d cs") auto
  show ?case
  proof (cases "c = d")
    case True
    then show ?thesis using Cons.IH ws by simp
  next
    case False
    then show ?thesis using Cons.IH ws by (simp add: join_Cons_Cons)
  qed
qed

lemma mem_join_factor: "x \<in> set xs \<Longrightarrow> \<exists>a b. join sep xs = a @ x @ b"
proof (induction sep xs rule: join.induct)
  case (1 sep)
  then show ?case by simp
next
  case (2 sep y)
  then have "join sep [y] = [] @ x @ []" by simp
  then show ?case by blast
next
  case (3 sep y z zs)
  show ?case
  proof (cases "x = y")
    case True
    then have "join sep (y # z # zs) = [] @ x @ (sep @ join sep (z # zs))" by simp
    then show ?thesis by blast
  next
    case False
    with 3 obtain a b where "join sep (z # zs) = a @ x @ b" by auto
    then have "join sep (y # z # zs) = (y @ sep @ a) @ x @ b" by simp
    then show ?thesis by blast
  qed
qed

lemma split_on_factor: "x \<in> set (split_on d s) \<Longrightarrow> \<exists>a b. s = a @ x @ b"
  using mem_join_factor [of x "split_on d s" "[d]"] by (simp add: join_split_on)


section \<open>The command runner: what reaches the process and what a failure carries\<close>

lemma run_command_spawn:
  "cmd \<noteq> [] \<Longrightarrow>
   run_command E cmd cwd =
     (case spawn E cmd (case cwd of Some d \<Rightarrow> d | None \<Rightarrow> work_dir E) of
        Inl e \<Rightarrow>
          Inl (RuntimeError (''Failed to execute command: '' @ join '' '' cmd @ nl
                             @ ''Error: '' @ str_exn e))
      | Inr p \<Rightarrow>
          (if returncode p \<noteq> 0
           then Inl (RuntimeError (''Failed to execute command: '' @ join '' '' cmd @ nl
                                   @ ''Error: Command failed: '' @ join '' '' cmd @ nl
                                   @ ''Error: '' @ stderr p))
           else Inr (if stdout p \<noteq> [] then stdout p else stderr p)),
      [(cmd, case cwd of Some d \<Rightarrow> d | None \<Rightarrow> work_dir E)])"
  by (cases cmd)
    (simp_all add: run_command_def run_command_try_def create_subprocess_exec_def Let_def
      split: sum.splits)

lemma run_command_empty:
  "run_command E [] cwd =
     (Inl (RuntimeError (''Failed to execute command: '' @ nl
                         @ ''Error: create_subprocess_exec() missing 1 required positional ''
                         @ ''argument: '' @ quote @ ''program'' @ quote)), [])"
  by (simp add: run_command_def run_command_try_def create_subprocess_exec_def)

lemma run_command_log:
  "cmd \<noteq> [] \<Longrightarrow>
   snd (run_command E cmd cwd) = [(cmd, case cwd of Some d \<Rightarrow> d | None \<Rightarrow> work_dir E)]"
  by (simp add: run_command_spawn)

lemma run_command_spawn_failed:
  "cmd \<noteq> [] \<Longrightarrow> spawn E cmd (case cwd of Some d \<Rightarrow> d | None \<Rightarrow> work_dir E) = Inl e \<Longrightarrow>
   run_command E cmd cwd =
     (Inl (RuntimeError (''Failed to execute command: '' @ join '' '' cmd @ nl
                         @ ''Error: '' @ str_exn e)),
      [(cmd, case cwd of Some d \<Rightarrow> d | None \<Rightarrow> work_dir E)])"
  by (simp add: run_command_spawn)

lemma run_command_nonzero:
  "cmd \<noteq> [] \<Longrightarrow> spawn E cmd (case cwd of Some d \<Rightarrow> d | None \<Rightarrow> work_dir E) = Inr p \<Longrightarrow>
   returncode p \<noteq> 0 \<Longrightarrow>
   run_command E cmd cwd =
     (Inl (RuntimeError (''Failed to execute command: '' @ join '' '' cmd @ nl
                         @ ''Error: Command failed: '' @ join '' '' cmd @ nl
                         @ ''Error: '' @ stderr p)),
      [(cmd, case cwd of Some d \<Rightarrow> d | None \<Rightarrow> work_dir E)])"
  by (simp add: run_command_spawn)

lemma run_command_zero:
  "cmd \<noteq> [] \<Longrightarrow> spawn E cmd (case cwd of Some d \<Rightarrow> d | None \<Rightarrow> work_dir E) = Inr p \<Longrightarrow>
   returncode p = 0 \<Longrightarrow>
   run_command E cmd cwd =
     (Inr (if stdout p \<noteq> [] then stdout p else stderr p),
      [(cmd, case cwd of Some d \<Rightarrow> d | None \<Rightarrow> work_dir E)])"
  by (simp add: run_command_spawn)

lemma run_command_failures_differ:
  assumes "cmd \<noteq> []"
    and "spawn E cmd (case cwd of Some d \<Rightarrow> d | None \<Rightarrow> work_dir E) = Inl (OSError n m)"
    and "spawn E' cmd (case cwd' of Some d \<Rightarrow> d | None \<Rightarrow> work_dir E') = Inr p"
    and "returncode p \<noteq> 0"
  shows "fst (run_command E cmd cwd) \<noteq> fst (run_command E' cmd cwd')"
  using assms
  by (simp add: run_command_spawn_failed [OF assms(1,2)] run_command_nonzero [OF assms(1,3,4)])

lemma run_command_failures_differ_text:
  assumes "cmd \<noteq> []"
    and "spawn E cmd (case cwd of Some d \<Rightarrow> d | None \<Rightarrow> work_dir E) = Inl e"
    and "\<not> startswith (str_exn e) ''Command failed: ''"
    and "spawn E' cmd (case cwd' of Some d \<Rightarrow> d | None \<Rightarrow> work_dir E') = Inr p"
    and "returncode p \<noteq> 0"
  shows "fst (run_command E cmd cwd) \<noteq> fst (run_command E' cmd cwd')"
proof
  assume "fst (run_command E cmd cwd) = fst (run_command E' cmd cwd')"
  then have "str_exn e = ''Command failed: '' @ join '' '' cmd @ nl @ ''Error: '' @ stderr p"
    by (simp add: run_command_spawn_failed [OF assms(1,2)] run_command_nonzero [OF assms(1,4,5)])
  then have "startswith (str_exn e) ''Command failed: ''"
    unfolding startswith_iff by blast
  with assms(3) show False by simp
qed

lemma str_nat_small:
  "str_nat 0 = ''0''" "str_nat 1 = ''1''" "str_nat (Suc 0) = ''1''" "str_nat 2 = ''2''"
  "str_nat 3 = ''3''" "str_nat 13 = ''13''" "str_nat 36 = ''36''" "str_nat 2048 = ''2048''"
  by code_simp+

lemma demo_settings:
  "apktool_path (demo_env sp) = ''apktool''" "work_dir (demo_env sp) = Path ''/w''"
  "spawn (demo_env sp) = sp"
  by (simp_all add: demo_env_def)

text \<open>
  Claim C4, amended. When the process exits with a non-zero status, the runner
  raises a \<open>RuntimeError\<close> whose message carries the argument vector joined by
  blanks and the captured standard error; the captured standard output is not part
  of it, also when the standard error is empty. When the process cannot be
  spawned, the runner raises a \<open>RuntimeError\<close> whose message carries the joined
  vector and the message of the spawn's exception. For the same vector, the
  failure after an error of the operating system differs from every failure after
  a non-zero exit, and so does the failure after any other exception of the spawn
  whose own message does not begin with \<open>Command failed: \<close>. In both cases the
  process was requested with the vector as it is.
\<close>

theorem run_command_failure_messages:
  "(cmd \<noteq> [] \<and> spawn E cmd (case cwd of Some d \<Rightarrow> d | None \<Rightarrow> work_dir E) = Inr p
      \<and> returncode p \<noteq> 0 \<longrightarrow>
      run_command E cmd cwd =
        (Inl (RuntimeError (''Failed to execute command: '' @ join '' '' cmd @ nl
                            @ ''Error: Command failed: '' @ join '' '' cmd @ nl
                            @ ''Error: '' @ stderr p)),
         [(cmd, case cwd of Some d \<Rightarrow> d | None \<Rightarrow> work_dir E)]))
   \<and> (cmd \<noteq> [] \<and> spawn E cmd (case cwd of Some d \<Rightarrow> d | None \<Rightarrow> work_dir E) = Inl e \<longrightarrow>
      run_command E cmd cwd =
        (Inl (RuntimeError (''Failed to execute command: '' @ join '' '' cmd @ nl
                            @ ''Error: '' @ str_exn e)),
         [(cmd, case cwd of Some d \<Rightarrow> d | None \<Rightarrow> work_dir E)]))
   \<and> (cmd \<noteq> []
      \<and> spawn E cmd (case cwd of Some d \<Rightarrow> d | None \<Rightarrow> work_dir E) = Inl (OSError n m)
      \<and> spawn E' cmd (case cwd' of Some d \<Rightarrow> d | None \<Rightarrow> work_dir E') = Inr p'
      \<and> returncode p' \<noteq> 0 \<longrightarrow>
      fst (run_command E cmd cwd) \<noteq> fst (run_command E' cmd cwd'))
   \<and> (cmd \<noteq> []
      \<and> spawn E cmd (case cwd of Some d \<Rightarrow> d | None \<Rightarrow> work_dir E) = Inl e
      \<and> \<not> startswith (str_exn e) ''Command failed: ''
      \<and> spawn E' cmd (case cwd' of Some d \<Rightarrow> d | None \<Rightarrow> work_dir E') = Inr p'
      \<and> returncode p' \<noteq> 0 \<longrightarrow>
      fst (run_command E cmd cwd) \<noteq> fst (run_command E' cmd cwd'))"
  using run_command_nonzero [of cmd E cwd p] run_command_spawn_failed [of cmd E cwd e]
    run_command_failures_differ [of cmd E cwd n m E' cwd' p']
    run_command_failures_differ_text [of cmd E cwd e E' cwd' p']
  by blast

text \<open>
  The theorem at a process that exits with status 1 and at an executable that is
  not there.
\<close>

theorem run_command_failure_messages_witness:
  "run_command (demo_env spawn_exit1) [''apktool'', ''d'', ''x.apk''] None =
     (Inl (RuntimeError (''Failed to execute command: apktool d x.apk'' @ nl
                         @ ''Error: Command failed: apktool d x.apk'' @ nl @ ''Error: '')),
      [([''apktool'', ''d'', ''x.apk''], Path ''/w'')])
   \<and> run_command (demo_env spawn_missing) [''apktool'', ''d'', ''x.apk''] None =
     (Inl (RuntimeError (''Failed to execute command: apktool d x.apk'' @ nl
                         @ ''Error: [Errno 2] No such file or directory'')),
      [([''apktool'', ''d'', ''x.apk''], Path ''/w'')])
   \<and> fst (run_command (demo_env spawn_missing) [''apktool'', ''d'', ''x.apk''] None)
       \<noteq> fst (run_command (demo_env spawn_exit1) [''apktool'', ''d'', ''x.apk''] None)
   \<and> fst (run_command (demo_env (\<lambda>cmd cwd. Inl (ValueError ''embedded null byte'')))
             [''apktool'', ''d'', ''x.apk''] None)
       \<noteq> fst (run_command (demo_env spawn_exit1) [''apktool'', ''d'', ''x.apk''] None)"
proof -
  let ?c = "[''apktool'', ''d'', ''x.apk'']"
  let ?p = "\<lparr>returncode = 1, stdout = ''boom'', stderr = []\<rparr>"
  have a: "spawn (demo_env spawn_exit1) ?c
             (case None of Some d \<Rightarrow> d | None \<Rightarrow> work_dir (demo_env spawn_exit1)) = Inr ?p"
    "returncode ?p \<noteq> 0"
    by (simp_all add: demo_settings spawn_exit1_def)
  have b: "spawn (demo_env spawn_missing) ?c
             (case None of Some d \<Rightarrow> d | None \<Rightarrow> work_dir (demo_env spawn_missing)) =
           Inl (OSError 2 ''No such file or directory'')"
    by (simp add: demo_settings spawn_missing_def no_entry_def)
  have c: "spawn (demo_env (\<lambda>cmd cwd. Inl (ValueError ''embedded null byte''))) ?c
             (case None of Some d \<Rightarrow> d
              | None \<Rightarrow> work_dir (demo_env (\<lambda>cmd cwd. Inl (ValueError ''embedded null byte'')))) =
           Inl (ValueError ''embedded null byte'')"
    "\<not> startswith (str_exn (ValueError ''embedded null byte'')) ''Command failed: ''"
    by (simp_all add: demo_settings)
  from a b
    run_command_failure_messages [of ?c "demo_env spawn_exit1" None ?p no_entry 2
      "''No such file or directory''" "demo_env spawn_exit1" None ?p]
    run_command_failure_messages [of ?c "demo_env spawn_missing" None ?p no_entry 2
      "''No such file or directory''" "demo_env spawn_exit1" None ?p]
  have 1: "run_command (demo_env spawn_exit1) [''apktool'', ''d'', ''x.apk''] None =
     (Inl (RuntimeError (''Failed to execute command: apktool d x.apk'' @ nl
                         @ ''Error: Command failed: apktool d x.apk'' @ nl @ ''Error: '')),
      [([''apktool'', ''d'', ''x.apk''], Path ''/w'')])
   \<and> run_command (demo_env spawn_missing) [''apktool'', ''d'', ''x.apk''] None =
     (Inl (RuntimeError (''Failed to execute command: apktool d x.apk'' @ nl
                         @ ''Error: [Errno 2] No such file or directory'')),
      [([''apktool'', ''d'', ''x.apk''], Path ''/w'')])
   \<and> fst (run_command (demo_env spawn_missing) [''apktool'', ''d'', ''x.apk''] None)
       \<noteq> fst (run_command (demo_env spawn_exit1) [''apktool'', ''d'', ''x.apk''] None)"
    by (simp add: demo_settings no_entry_def str_nat_small)
  have d: "?c \<noteq> []" by simp
  from a c d
    run_command_failure_messages [of ?c "demo_env (\<lambda>cmd cwd. Inl (ValueError ''embedded null byte''))"
      None ?p "ValueError ''embedded null byte''" 2
      "''No such file or directory''" "demo_env spawn_exit1" None ?p]
  have 2: "fst (run_command (demo_env (\<lambda>cmd cwd. Inl (ValueError ''embedded null byte'')))
             [''apktool'', ''d'', ''x.apk''] None)
       \<noteq> fst (run_command (demo_env spawn_exit1) [''apktool'', ''d'', ''x.apk''] None)"
    by blast
  from 1 2 show ?thesis by simp
qed

text \<open>
  Claim C4 as stated fails: a process that exits with status 1, prints \<open>boom\<close> on
  standard output and nothing on standard error gives a message that ends after
  \<open>Error: \<close> and does not hold \<open>boom\<close>.
\<close>

theorem run_command_stdout_dropped:
  "spawn (demo_env spawn_exit1) [''apktool'', ''d'', ''x.apk''] (Path ''/w'') =
     Inr \<lparr>returncode = 1, stdout = ''boom'', stderr = []\<rparr>
   \<and> run_command (demo_env spawn_exit1) [''apktool'', ''d'', ''x.apk''] None =
     (Inl (RuntimeError (''Failed to execute command: apktool d x.apk'' @ nl
                         @ ''Error: Command failed: apktool d x.apk'' @ nl @ ''Error: '')),
      [([''apktool'', ''d'', ''x.apk''], Path ''/w'')])
   \<and> \<not> contains ''boom'' (''Failed to execute command: apktool d x.apk'' @ nl
                        @ ''Error: Command failed: apktool d x.apk'' @ nl @ ''Error: '')"
  by (simp add: run_command_def run_command_try_def create_subprocess_exec_def demo_env_def
        spawn_exit1_def nl_def)

section \<open>The processes a handler spawns\<close>

lemma snd_case_io:
  "snd (case x of (Inl e, log) \<Rightarrow> (F e, log) | (Inr r, log) \<Rightarrow> (G r, log)) = snd x"
  by (cases x) (auto split: sum.splits)

lemma get_case_io:
  "snd (case x of (Inr r, log) \<Rightarrow> (G r, log)
        | (Inl e, log) \<Rightarrow> (case y of Inl e' \<Rightarrow> (Inl e', log) | Inr st \<Rightarrow> (H st, log))) = snd x"
  by (cases x) (auto split: sum.splits)

lemma decode_apk_log:
  "exists E (Path apk_path) = Inr True \<Longrightarrow>
   snd (decode_apk E apk_path output_dir force no_res no_src) =
     [([apktool_path E, ''d'', str_path (Path apk_path)]
       @ (if force then [''-f''] else [])
       @ (if no_res then [''-r''] else [])
       @ (if no_src then [''-s''] else [])
       @ [''-o'', str_path (pjoin (work_dir E)
                    (case output_dir of
                       None \<Rightarrow> stem (Path apk_path)
                     | Some d \<Rightarrow> (if d = [] then stem (Path apk_path) else d)))],
       work_dir E)]"
  by (simp add: decode_apk_def Let_def snd_case_io run_command_log)

lemma decode_apk_ok:
  assumes "exists E (Path apk_path) = Inr True"
    and "spawn E ([apktool_path E, ''d'', str_path (Path apk_path)]
                  @ (if force then [''-f''] else [])
                  @ (if no_res then [''-r''] else [])
                  @ (if no_src then [''-s''] else [])
                  @ [''-o'', str_path (pjoin (work_dir E)
                               (case output_dir of
                                  None \<Rightarrow> stem (Path apk_path)
                                | Some d \<Rightarrow> (if d = [] then stem (Path apk_path) else d)))])
           (work_dir E) = Inr p"
    and "returncode p = 0"
  shows "fst (decode_apk E apk_path output_dir force no_res no_src) =
     Inr (''Successfully decompiled APK to: ''
          @ str_path (pjoin (work_dir E)
               (case output_dir of
                  None \<Rightarrow> stem (Path apk_path)
                | Some d \<Rightarrow> (if d = [] then stem (Path apk_path) else d)))
          @ nl @ nl @ ''Output:'' @ nl @ (if stdout p \<noteq> [] then stdout p else stderr p))"
proof -
  have "run_command E ([apktool_path E, ''d'', str_path (Path apk_path)]
                  @ (if force then [''-f''] else [])
                  @ (if no_res then [''-r''] else [])
                  @ (if no_src then [''-s''] else [])
                  @ [''-o'', str_path (pjoin (work_dir E)
                               (case output_dir of
                                  None \<Rightarrow> stem (Path apk_path)
                                | Some d \<Rightarrow> (if d = [] then stem (Path apk_path) else d)))]) None =
      (Inr (if stdout p \<noteq> [] then stdout p else stderr p),
       [([apktool_path E, ''d'', str_path (Path apk_path)]
                  @ (if force then [''-f''] else [])
                  @ (if no_res then [''-r''] else [])
                  @ (if no_src then [''-s''] else [])
                  @ [''-o'', str_path (pjoin (work_dir E)
                               (case output_dir of
                                  None \<Rightarrow> stem (Path apk_path)
                                | Some d \<Rightarrow> (if d = [] then stem (Path apk_path) else d)))],
         work_dir E)])"
    using assms(2,3) by (intro run_command_zero [where cwd = None, simplified]) simp_all
  then show ?thesis
    using assms(1) by (simp add: decode_apk_def Let_def)
qed

lemma build_apk_log:
  "exists E (Path source_dir) = Inr True \<Longrightarrow>
   snd (build_apk E source_dir output_apk force) =
     [([apktool_path E, ''b'', str_path (Path source_dir)]
       @ (if force then [''-f''] else [])
       @ (case output_apk of None \<Rightarrow> [] | Some a \<Rightarrow> (if a \<noteq> [] then [''-o'', a] else [])),
       work_dir E)]"
  by (simp add: build_apk_def Let_def snd_case_io run_command_log)

lemma build_apk_ok:
  assumes "exists E (Path source_dir) = Inr True"
    and "spawn E ([apktool_path E, ''b'', str_path (Path source_dir)]
                  @ (if force then [''-f''] else [])
                  @ (case output_apk of
                       None \<Rightarrow> [] | Some a \<Rightarrow> (if a \<noteq> [] then [''-o'', a] else [])))
           (work_dir E) = Inr p"
    and "returncode p = 0"
  shows "fst (build_apk E source_dir output_apk force) =
     Inr (''Successfully built APK from: '' @ str_path (Path source_dir)
          @ nl @ nl @ ''Output:'' @ nl @ (if stdout p \<noteq> [] then stdout p else stderr p))"
proof -
  have "run_command E ([apktool_path E, ''b'', str_path (Path source_dir)]
                  @ (if force then [''-f''] else [])
                  @ (case output_apk of
                       None \<Rightarrow> [] | Some a \<Rightarrow> (if a \<noteq> [] then [''-o'', a] else []))) None =
      (Inr (if stdout p \<noteq> [] then stdout p else stderr p),
       [([apktool_path E, ''b'', str_path (Path source_dir)]
                  @ (if force then [''-f''] else [])
                  @ (case output_apk of
                       None \<Rightarrow> [] | Some a \<Rightarrow> (if a \<noteq> [] then [''-o'', a] else [])),
         work_dir E)])"
    using assms(2,3) by (intro run_command_zero [where cwd = None, simplified]) simp_all
  then show ?thesis
    using assms(1) by (simp add: build_apk_def Let_def)
qed

lemma install_framework_log:
  "exists E (Path framework_path) = Inr True \<Longrightarrow>
   snd (install_framework E framework_path tag) =
     [([apktool_path E, ''if'', str_path (Path framework_path)]
       @ (case tag of None \<Rightarrow> [] | Some t \<Rightarrow> (if t \<noteq> [] then [''-t'', t] else [])),
       work_dir E)]"
  by (simp add: install_framework_def Let_def snd_case_io run_command_log)

lemma install_framework_ok:
  assumes "exists E (Path framework_path) = Inr True"
    and "spawn E ([apktool_path E, ''if'', str_path (Path framework_path)]
                  @ (case tag of
                       None \<Rightarrow> [] | Some t \<Rightarrow> (if t \<noteq> [] then [''-t'', t] else [])))
           (work_dir E) = Inr p"
    and "returncode p = 0"
  shows "fst (install_framework E framework_path tag) =
     Inr (''Successfully installed framework: '' @ framework_path
          @ nl @ nl @ ''Output:'' @ nl @ (if stdout p \<noteq> [] then stdout p else stderr p))"
proof -
  have "run_command E ([apktool_path E, ''if'', str_path (Path framework_path)]
                  @ (case tag of
                       None \<Rightarrow> [] | Some t \<Rightarrow> (if t \<noteq> [] then [''-t'', t] else []))) None =
      (Inr (if stdout p \<noteq> [] then stdout p else stderr p),
       [([apktool_path E, ''if'', str_path (Path framework_path)]
                  @ (case tag of
                       None \<Rightarrow> [] | Some t \<Rightarrow> (if t \<noteq> [] then [''-t'', t] else [])),
         work_dir E)])"
    using assms(2,3) by (intro run_command_zero [where cwd = None, simplified]) simp_all
  then show ?thesis
    using assms(1) by (simp add: install_framework_def Let_def)
qed

lemma get_apk_info_log:
  "exists E (Path apk_path) = Inr True \<Longrightarrow>
   snd (get_apk_info E apk_path) =
     [([''aapt'', ''dump'', ''badging'', str_path (Path apk_path)], work_dir E)]"
  by (simp add: get_apk_info_def Let_def get_case_io run_command_log)

lemma get_apk_info_zero:
  assumes "exists E (Path apk_path) = Inr True"
    and "spawn E [''aapt'', ''dump'', ''badging'', str_path (Path apk_path)] (work_dir E) = Inr p"
    and "returncode p = 0"
  shows "fst (get_apk_info E apk_path) =
     Inr (''APK Information:'' @ nl @ nl @ (if stdout p \<noteq> [] then stdout p else stderr p))"
proof -
  have "run_command E [''aapt'', ''dump'', ''badging'', str_path (Path apk_path)] None =
      (Inr (if stdout p \<noteq> [] then stdout p else stderr p),
       [([''aapt'', ''dump'', ''badging'', str_path (Path apk_path)], work_dir E)])"
    using assms(2,3) by (intro run_command_zero [where cwd = None, simplified]) simp_all
  then show ?thesis
    using assms(1) by (simp add: get_apk_info_def Let_def)
qed

lemma handler_log_cases:
  "snd (decode_apk E apk_path output_dir force no_res no_src) = []
   \<or> snd (decode_apk E apk_path output_dir force no_res no_src) =
       [([apktool_path E, ''d'', str_path (Path apk_path)]
         @ (if force then [''-f''] else [])
         @ (if no_res then [''-r''] else [])
         @ (if no_src then [''-s''] else [])
         @ [''-o'', str_path (pjoin (work_dir E)
                      (case output_dir of
                         None \<Rightarrow> stem (Path apk_path)
                       | Some d \<Rightarrow> (if d = [] then stem (Path apk_path) else d)))],
         work_dir E)]"
  "snd (build_apk E source_dir output_apk bforce) = []
   \<or> snd (build_apk E source_dir output_apk bforce) =
       [([apktool_path E, ''b'', str_path (Path source_dir)]
         @ (if bforce then [''-f''] else [])
         @ (case output_apk of None \<Rightarrow> [] | Some a \<Rightarrow> (if a \<noteq> [] then [''-o'', a] else [])),
         work_dir E)]"
  "snd (install_framework E framework_path tag) = []
   \<or> snd (install_framework E framework_path tag) =
       [([apktool_path E, ''if'', str_path (Path framework_path)]
         @ (case tag of None \<Rightarrow> [] | Some t \<Rightarrow> (if t \<noteq> [] then [''-t'', t] else [])),
         work_dir E)]"
  "snd (get_apk_info E info_path) = []
   \<or> snd (get_apk_info E info_path) =
       [([''aapt'', ''dump'', ''badging'', str_path (Path info_path)], work_dir E)]"
proof -
  show "snd (decode_apk E apk_path output_dir force no_res no_src) = []
   \<or> snd (decode_apk E apk_path output_dir force no_res no_src) =
       [([apktool_path E, ''d'', str_path (Path apk_path)]
         @ (if force then [''-f''] else [])
         @ (if no_res then [''-r''] else [])
         @ (if no_src then [''-s''] else [])
         @ [''-o'', str_path (pjoin (work_dir E)
                      (case output_dir of
                         None \<Rightarrow> stem (Path apk_path)
                       | Some d \<Rightarrow> (if d = [] then stem (Path apk_path) else d)))],
         work_dir E)]"
  proof (cases "exists E (Path apk_path)")
    case (Inl e)
    then show ?thesis by (simp add: decode_apk_def)
  next
    case (Inr found)
    then show ?thesis
      using decode_apk_log [of E apk_path output_dir force no_res no_src]
      by (cases found) (simp_all add: decode_apk_def)
  qed
  show "snd (build_apk E source_dir output_apk bforce) = []
   \<or> snd (build_apk E source_dir output_apk bforce) =
       [([apktool_path E, ''b'', str_path (Path source_dir)]
         @ (if bforce then [''-f''] else [])
         @ (case output_apk of None \<Rightarrow> [] | Some a \<Rightarrow> (if a \<noteq> [] then [''-o'', a] else [])),
         work_dir E)]"
  proof (cases "exists E (Path source_dir)")
    case (Inl e)
    then show ?thesis by (simp add: build_apk_def)
  next
    case (Inr found)
    then show ?thesis
      using build_apk_log [of E source_dir output_apk bforce]
      by (cases found) (simp_all add: build_apk_def)
  qed
  show "snd (install_framework E framework_path tag) = []
   \<or> snd (install_framework E framework_path tag) =
       [([apktool_path E, ''if'', str_path (Path framework_path)]
         @ (case tag of None \<Rightarrow> [] | Some t \<Rightarrow> (if t \<noteq> [] then [''-t'', t] else [])),
         work_dir E)]"
  proof (cases "exists E (Path framework_path)")
    case (Inl e)
    then show ?thesis by (simp add: install_framework_def)
  next
    case (Inr found)
    then show ?thesis
      using install_framework_log [of E framework_path tag]
      by (cases found) (simp_all add: install_framework_def)
  qed
  show "snd (get_apk_info E info_path) = []
   \<or> snd (get_apk_info E info_path) =
       [([''aapt'', ''dump'', ''badging'', str_path (Path info_path)], work_dir E)]"
  proof (cases "exists E (Path info_path)")
    case (Inl e)
    then show ?thesis by (simp add: get_apk_info_def)
  next
    case (Inr found)
    then show ?thesis
      using get_apk_info_log [of E info_path]
      by (cases found) (simp_all add: get_apk_info_def)
  qed
qed

lemma analyze_manifest_log: "snd (analyze_manifest E apk_dir) = []"
  by (simp add: analyze_manifest_def Let_def split: sum.splits)

lemma extract_strings_log: "snd (extract_strings E apk_dir locale) = []"
  by (simp add: extract_strings_def Let_def split: sum.splits)

lemma list_permissions_log: "snd (list_permissions E apk_dir) = []"
  by (simp add: list_permissions_def Let_def split: sum.splits)

lemma find_smali_references_log: "snd (find_smali_references E apk_dir pattern cs) = []"
  by (simp add: find_smali_references_def Let_def split: sum.splits)

text \<open>
  Claim C1. The runner hands the operating system the list \<open>cmd\<close> itself: what it
  returns is what \<open>spawn\<close> answers at exactly that vector and working directory,
  and the one process on record was requested with exactly that vector. Every
  handler that runs a process builds the vector from separate texts: the decoder,
  the builder, the framework installer and the badging query each request exactly
  one process with the vector shown, in which a path or a value given by the
  caller is one element whatever characters it holds, and each reports what the
  process started with that vector printed. In every other case these four
  handlers request no process, and the four other handlers never request one. The
  vector joined by blanks occurs in the messages of the runner only.
\<close>

theorem argument_vector_discrete:
  "(cmd \<noteq> [] \<longrightarrow>
      run_command E cmd cwd =
        (case spawn E cmd (case cwd of Some d \<Rightarrow> d | None \<Rightarrow> work_dir E) of
           Inl e \<Rightarrow>
             Inl (RuntimeError (''Failed to execute command: '' @ join '' '' cmd @ nl
                                @ ''Error: '' @ str_exn e))
         | Inr p \<Rightarrow>
             (if returncode p \<noteq> 0
              then Inl (RuntimeError (''Failed to execute command: '' @ join '' '' cmd @ nl
                                      @ ''Error: Command failed: '' @ join '' '' cmd @ nl
                                      @ ''Error: '' @ stderr p))
              else Inr (if stdout p \<noteq> [] then stdout p else stderr p)),
         [(cmd, case cwd of Some d \<Rightarrow> d | None \<Rightarrow> work_dir E)]))
   \<and> snd (run_command E [] cwd) = []
   \<and> (exists E (Path apk_path) = Inr True \<longrightarrow>
        snd (decode_apk E apk_path output_dir force no_res no_src) =
          [([apktool_path E, ''d'', str_path (Path apk_path)]
            @ (if force then [''-f''] else [])
            @ (if no_res then [''-r''] else [])
            @ (if no_src then [''-s''] else [])
            @ [''-o'', str_path (pjoin (work_dir E)
                         (case output_dir of
                            None \<Rightarrow> stem (Path apk_path)
                          | Some d \<Rightarrow> (if d = [] then stem (Path apk_path) else d)))],
            work_dir E)])
   \<and> (exists E (Path apk_path) = Inr True
        \<and> spawn E ([apktool_path E, ''d'', str_path (Path apk_path)]
                   @ (if force then [''-f''] else [])
                   @ (if no_res then [''-r''] else [])
                   @ (if no_src then [''-s''] else [])
                   @ [''-o'', str_path (pjoin (work_dir E)
                                (case output_dir of
                                   None \<Rightarrow> stem (Path apk_path)
                                 | Some d \<Rightarrow> (if d = [] then stem (Path apk_path) else d)))])
            (work_dir E) = Inr dproc
        \<and> returncode dproc = 0 \<longrightarrow>
        fst (decode_apk E apk_path output_dir force no_res no_src) =
          Inr (''Successfully decompiled APK to: ''
               @ str_path (pjoin (work_dir E)
                    (case output_dir of
                       None \<Rightarrow> stem (Path apk_path)
                     | Some d \<Rightarrow> (if d = [] then stem (Path apk_path) else d)))
               @ nl @ nl @ ''Output:'' @ nl
               @ (if stdout dproc \<noteq> [] then stdout dproc else stderr dproc)))
   \<and> (exists E (Path source_dir) = Inr True \<longrightarrow>
        snd (build_apk E source_dir output_apk bforce) =
          [([apktool_path E, ''b'', str_path (Path source_dir)]
            @ (if bforce then [''-f''] else [])
            @ (case output_apk of None \<Rightarrow> [] | Some a \<Rightarrow> (if a \<noteq> [] then [''-o'', a] else [])),
            work_dir E)])
   \<and> (exists E (Path source_dir) = Inr True
        \<and> spawn E ([apktool_path E, ''b'', str_path (Path source_dir)]
                   @ (if bforce then [''-f''] else [])
                   @ (case output_apk of
                        None \<Rightarrow> [] | Some a \<Rightarrow> (if a \<noteq> [] then [''-o'', a] else [])))
            (work_dir E) = Inr bproc
        \<and> returncode bproc = 0 \<longrightarrow>
        fst (build_apk E source_dir output_apk bforce) =
          Inr (''Successfully built APK from: '' @ str_path (Path source_dir)
               @ nl @ nl @ ''Output:'' @ nl
               @ (if stdout bproc \<noteq> [] then stdout bproc else stderr bproc)))
   \<and> (exists E (Path framework_path) = Inr True \<longrightarrow>
        snd (install_framework E framework_path tag) =
          [([apktool_path E, ''if'', str_path (Path framework_path)]
            @ (case tag of None \<Rightarrow> [] | Some t \<Rightarrow> (if t \<noteq> [] then [''-t'', t] else [])),
            work_dir E)])
   \<and> (exists E (Path framework_path) = Inr True
        \<and> spawn E ([apktool_path E, ''if'', str_path (Path framework_path)]
                   @ (case tag of
                        None \<Rightarrow> [] | Some t \<Rightarrow> (if t \<noteq> [] then [''-t'', t] else [])))
            (work_dir E) = Inr fproc
        \<and> returncode fproc = 0 \<longrightarrow>
        fst (install_framework E framework_path tag) =
          Inr (''Successfully installed framework: '' @ framework_path
               @ nl @ nl @ ''Output:'' @ nl
               @ (if stdout fproc \<noteq> [] then stdout fproc else stderr fproc)))
   \<and> (exists E (Path info_path) = Inr True \<longrightarrow>
        snd (get_apk_info E info_path) =
          [([''aapt'', ''dump'', ''badging'', str_path (Path info_path)], work_dir E)])
   \<and> (exists E (Path info_path) = Inr True
        \<and> spawn E [''aapt'', ''dump'', ''badging'', str_path (Path info_path)] (work_dir E) = Inr iproc
        \<and> returncode iproc = 0 \<longrightarrow>
        fst (get_apk_info E info_path) =
          Inr (''APK Information:'' @ nl @ nl
               @ (if stdout iproc \<noteq> [] then stdout iproc else stderr iproc)))
   \<and> snd (analyze_manifest E mdir) = []
   \<and> snd (extract_strings E sdir locale) = []
   \<and> snd (list_permissions E pdir) = []
   \<and> snd (find_smali_references E fdir pattern case_sensitive) = []
   \<and> (snd (decode_apk E apk_path output_dir force no_res no_src) = []
      \<or> snd (decode_apk E apk_path output_dir force no_res no_src) =
          [([apktool_path E, ''d'', str_path (Path apk_path)]
            @ (if force then [''-f''] else [])
            @ (if no_res then [''-r''] else [])
            @ (if no_src then [''-s''] else [])
            @ [''-o'', str_path (pjoin (work_dir E)
                         (case output_dir of
                            None \<Rightarrow> stem (Path apk_path)
                          | Some d \<Rightarrow> (if d = [] then stem (Path apk_path) else d)))],
            work_dir E)])
   \<and> (snd (build_apk E source_dir output_apk bforce) = []
      \<or> snd (build_apk E source_dir output_apk bforce) =
          [([apktool_path E, ''b'', str_path (Path source_dir)]
            @ (if bforce then [''-f''] else [])
            @ (case output_apk of None \<Rightarrow> [] | Some a \<Rightarrow> (if a \<noteq> [] then [''-o'', a] else [])),
            work_dir E)])
   \<and> (snd (install_framework E framework_path tag) = []
      \<or> snd (install_framework E framework_path tag) =
          [([apktool_path E, ''if'', str_path (Path framework_path)]
            @ (case tag of None \<Rightarrow> [] | Some t \<Rightarrow> (if t \<noteq> [] then [''-t'', t] else [])),
            work_dir E)])
   \<and> (snd (get_apk_info E info_path) = []
      \<or> snd (get_apk_info E info_path) =
          [([''aapt'', ''dump'', ''badging'', str_path (Path info_path)], work_dir E)])"
proof (intro conjI impI)
  assume "cmd \<noteq> []"
  then show "run_command E cmd cwd =
        (case spawn E cmd (case cwd of Some d \<Rightarrow> d | None \<Rightarrow> work_dir E) of
           Inl e \<Rightarrow>
             Inl (RuntimeError (''Failed to execute command: '' @ join '' '' cmd @ nl
                                @ ''Error: '' @ str_exn e))
         | Inr p \<Rightarrow>
             (if returncode p \<noteq> 0
              then Inl (RuntimeError (''Failed to execute command: '' @ join '' '' cmd @ nl
                                      @ ''Error: Command failed: '' @ join '' '' cmd @ nl
                                      @ ''Error: '' @ stderr p))
              else Inr (if stdout p \<noteq> [] then stdout p else stderr p)),
         [(cmd, case cwd of Some d \<Rightarrow> d | None \<Rightarrow> work_dir E)])"
    by (rule run_command_spawn)
next
  show "snd (run_command E [] cwd) = []"
    by (simp add: run_command_empty)
next
  assume "exists E (Path apk_path) = Inr True"
  then show "snd (decode_apk E apk_path output_dir force no_res no_src) =
          [([apktool_path E, ''d'', str_path (Path apk_path)]
            @ (if force then [''-f''] else [])
            @ (if no_res then [''-r''] else [])
            @ (if no_src then [''-s''] else [])
            @ [''-o'', str_path (pjoin (work_dir E)
                         (case output_dir of
                            None \<Rightarrow> stem (Path apk_path)
                          | Some d \<Rightarrow> (if d = [] then stem (Path apk_path) else d)))],
            work_dir E)]"
    by (rule decode_apk_log)
next
  assume "exists E (Path apk_path) = Inr True
        \<and> spawn E ([apktool_path E, ''d'', str_path (Path apk_path)]
                   @ (if force then [''-f''] else [])
                   @ (if no_res then [''-r''] else [])
                   @ (if no_src then [''-s''] else [])
                   @ [''-o'', str_path (pjoin (work_dir E)
                                (case output_dir of
                                   None \<Rightarrow> stem (Path apk_path)
                                 | Some d \<Rightarrow> (if d = [] then stem (Path apk_path) else d)))])
            (work_dir E) = Inr dproc
        \<and> returncode dproc = 0"
  then show "fst (decode_apk E apk_path output_dir force no_res no_src) =
          Inr (''Successfully decompiled APK to: ''
               @ str_path (pjoin (work_dir E)
                    (case output_dir of
                       None \<Rightarrow> stem (Path apk_path)
                     | Some d \<Rightarrow> (if d = [] then stem (Path apk_path) else d)))
               @ nl @ nl @ ''Output:'' @ nl
               @ (if stdout dproc \<noteq> [] then stdout dproc else stderr dproc))"
    using decode_apk_ok [of E apk_path force no_res no_src output_dir dproc] by blast
next
  assume "exists E (Path source_dir) = Inr True"
  then show "snd (build_apk E source_dir output_apk bforce) =
          [([apktool_path E, ''b'', str_path (Path source_dir)]
            @ (if bforce then [''-f''] else [])
            @ (case output_apk of None \<Rightarrow> [] | Some a \<Rightarrow> (if a \<noteq> [] then [''-o'', a] else [])),
            work_dir E)]"
    by (rule build_apk_log)
next
  assume "exists E (Path source_dir) = Inr True
        \<and> spawn E ([apktool_path E, ''b'', str_path (Path source_dir)]
                   @ (if bforce then [''-f''] else [])
                   @ (case output_apk of
                        None \<Rightarrow> [] | Some a \<Rightarrow> (if a \<noteq> [] then [''-o'', a] else [])))
            (work_dir E) = Inr bproc
        \<and> returncode bproc = 0"
  then show "fst (build_apk E source_dir output_apk bforce) =
          Inr (''Successfully built APK from: '' @ str_path (Path source_dir)
               @ nl @ nl @ ''Output:'' @ nl
               @ (if stdout bproc \<noteq> [] then stdout bproc else stderr bproc))"
    using build_apk_ok [of E source_dir bforce output_apk bproc] by blast
next
  assume "exists E (Path framework_path) = Inr True"
  then show "snd (install_framework E framework_path tag) =
          [([apktool_path E, ''if'', str_path (Path framework_path)]
            @ (case tag of None \<Rightarrow> [] | Some t \<Rightarrow> (if t \<noteq> [] then [''-t'', t] else [])),
            work_dir E)]"
    by (rule install_framework_log)
next
  assume "exists E (Path framework_path) = Inr True
        \<and> spawn E ([apktool_path E, ''if'', str_path (Path framework_path)]
                   @ (case tag of
                        None \<Rightarrow> [] | Some t \<Rightarrow> (if t \<noteq> [] then [''-t'', t] else [])))
            (work_dir E) = Inr fproc
        \<and> returncode fproc = 0"
  then show "fst (install_framework E framework_path tag) =
          Inr (''Successfully installed framework: '' @ framework_path
               @ nl @ nl @ ''Output:'' @ nl
               @ (if stdout fproc \<noteq> [] then stdout fproc else stderr fproc))"
    using install_framework_ok [of E framework_path tag fproc] by blast
next
  assume "exists E (Path info_path) = Inr True"
  then show "snd (get_apk_info E info_path) =
          [([''aapt'', ''dump'', ''badging'', str_path (Path info_path)], work_dir E)]"
    by (rule get_apk_info_log)
next
  assume "exists E (Path info_path) = Inr True
        \<and> spawn E [''aapt'', ''dump'', ''badging'', str_path (Path info_path)] (work_dir E) = Inr iproc
        \<and> returncode iproc = 0"
  then show "fst (get_apk_info E info_path) =
          Inr (''APK Information:'' @ nl @ nl
               @ (if stdout iproc \<noteq> [] then stdout iproc else stderr iproc))"
    using get_apk_info_zero [of E info_path iproc] by blast
next
  show "snd (analyze_manifest E mdir) = []" by (rule analyze_manifest_log)
next
  show "snd (extract_strings E sdir locale) = []" by (rule extract_strings_log)
next
  show "snd (list_permissions E pdir) = []" by (rule list_permissions_log)
next
  show "snd (find_smali_references E fdir pattern case_sensitive) = []"
    by (rule find_smali_references_log)
qed (rule handler_log_cases)+

lemma demo_exists_apk: "exists (demo_env sp) (Path ''/in/a b;c.apk'') = Inr True"
  by (simp add: exists_def demo_env_def Path_def path_root_def)

lemma demo_exists_proj: "exists (demo_env sp) (Path ''/proj'') = Inr True"
  by (simp add: exists_def demo_env_def Path_def path_root_def)

lemma demo_texts:
  "str_path (Path ''/in/a b;c.apk'') = ''/in/a b;c.apk''"
  "str_path (Path ''/proj'') = ''/proj''"
  "str_path (pjoin (Path ''/w'') ''out; rm -rf x'') = ''/w/out; rm -rf x''"
  "stem (Path ''/in/a b;c.apk'') = ''a b;c''"
  "str_path (pjoin (Path ''/w'') ''a b;c'') = ''/w/a b;c''"
  by (simp_all add: str_path_def Path_def path_root_def pjoin_def stem_def path_name_def Let_def)

text \<open>
  The theorem with a process that prints the vector it received, at an APK named
  \<open>a b;c.apk\<close>, an output directory, an output file and a tag that hold blanks,
  semicolons and a command substitution: each arrives as one element of the
  vector, unchanged.
\<close>

theorem argument_vector_discrete_witness:
  "run_command (demo_env spawn_echo) [''sh'', ''a b;c''] None =
     (Inr ''sh|a b;c'', [([''sh'', ''a b;c''], Path ''/w'')])
   \<and> decode_apk (demo_env spawn_echo) ''/in/a b;c.apk'' (Some ''out; rm -rf x'') True False False =
     (Inr (''Successfully decompiled APK to: /w/out; rm -rf x'' @ nl @ nl @ ''Output:'' @ nl
           @ ''apktool|d|/in/a b;c.apk|-f|-o|/w/out; rm -rf x''),
      [([''apktool'', ''d'', ''/in/a b;c.apk'', ''-f'', ''-o'', ''/w/out; rm -rf x''], Path ''/w'')])
   \<and> build_apk (demo_env spawn_echo) ''/proj'' (Some ''new $(id).apk'') False =
     (Inr (''Successfully built APK from: /proj'' @ nl @ nl @ ''Output:'' @ nl
           @ ''apktool|b|/proj|-o|new $(id).apk''),
      [([''apktool'', ''b'', ''/proj'', ''-o'', ''new $(id).apk''], Path ''/w'')])
   \<and> install_framework (demo_env spawn_echo) ''/in/a b;c.apk'' (Some ''t;ag | x'') =
     (Inr (''Successfully installed framework: /in/a b;c.apk'' @ nl @ nl @ ''Output:'' @ nl
           @ ''apktool|if|/in/a b;c.apk|-t|t;ag | x''),
      [([''apktool'', ''if'', ''/in/a b;c.apk'', ''-t'', ''t;ag | x''], Path ''/w'')])
   \<and> get_apk_info (demo_env spawn_echo) ''/in/a b;c.apk'' =
     (Inr (''APK Information:'' @ nl @ nl @ ''aapt|dump|badging|/in/a b;c.apk''),
      [([''aapt'', ''dump'', ''badging'', ''/in/a b;c.apk''], Path ''/w'')])"
  using argument_vector_discrete [where E = "demo_env spawn_echo" and cmd = "[''sh'', ''a b;c'']"
      and cwd = None and apk_path = "''/in/a b;c.apk''" and output_dir = "Some ''out; rm -rf x''"
      and force = True and no_res = False and no_src = False
      and dproc = "\<lparr>returncode = 0,
                      stdout = ''apktool|d|/in/a b;c.apk|-f|-o|/w/out; rm -rf x'', stderr = []\<rparr>"
      and source_dir = "''/proj''" and output_apk = "Some ''new $(id).apk''" and bforce = False
      and bproc = "\<lparr>returncode = 0, stdout = ''apktool|b|/proj|-o|new $(id).apk'', stderr = []\<rparr>"
      and framework_path = "''/in/a b;c.apk''" and tag = "Some ''t;ag | x''"
      and fproc = "\<lparr>returncode = 0, stdout = ''apktool|if|/in/a b;c.apk|-t|t;ag | x'', stderr = []\<rparr>"
      and info_path = "''/in/a b;c.apk''"
      and iproc = "\<lparr>returncode = 0, stdout = ''aapt|dump|badging|/in/a b;c.apk'', stderr = []\<rparr>"]
    demo_exists_apk [of spawn_echo] demo_exists_proj [of spawn_echo]
  by (simp add: demo_settings demo_texts spawn_echo_def prod_eq_iff)

section \<open>Decoding: the output directory\<close>













section \<open>Dispatch: unknown tools and handler exceptions\<close>

lemma dispatch_unknown:
  "name \<notin> set tool_names \<Longrightarrow>
   dispatch H name arguments = Some (Inl (ValueError (''Unknown tool: '' @ name)), [])"
  by (simp add: dispatch_def tool_names_def tool_required_def)

lemma call_tool_decode_apk:
  "call_decode_apk E arguments = Some (r, log) \<Longrightarrow>
   call_tool E ''decode_apk'' arguments =
     Some (case r of
             Inl e \<Rightarrow> \<lparr>out_text = ''Error executing decode_apk: '' @ str_exn e, isError = True\<rparr>
           | Inr result \<Rightarrow> \<lparr>out_text = result, isError = False\<rparr>, log)"
  by (cases r) (simp_all add: call_tool_def call_tool_with_def dispatch_def server_handlers_def)

lemma call_tool_build_apk:
  "call_build_apk E arguments = Some (r, log) \<Longrightarrow>
   call_tool E ''build_apk'' arguments =
     Some (case r of
             Inl e \<Rightarrow> \<lparr>out_text = ''Error executing build_apk: '' @ str_exn e, isError = True\<rparr>
           | Inr result \<Rightarrow> \<lparr>out_text = result, isError = False\<rparr>, log)"
  by (cases r) (simp_all add: call_tool_def call_tool_with_def dispatch_def server_handlers_def)

lemma call_tool_install_framework:
  "call_install_framework E arguments = Some (r, log) \<Longrightarrow>
   call_tool E ''install_framework'' arguments =
     Some (case r of
             Inl e \<Rightarrow> \<lparr>out_text = ''Error executing install_framework: '' @ str_exn e,
                       isError = True\<rparr>
           | Inr result \<Rightarrow> \<lparr>out_text = result, isError = False\<rparr>, log)"
  by (cases r) (simp_all add: call_tool_def call_tool_with_def dispatch_def server_handlers_def)

lemma call_tool_analyze_manifest:
  "call_analyze_manifest E arguments = Some (r, log) \<Longrightarrow>
   call_tool E ''analyze_manifest'' arguments =
     Some (case r of
             Inl e \<Rightarrow> \<lparr>out_text = ''Error executing analyze_manifest: '' @ str_exn e,
                       isError = True\<rparr>
           | Inr result \<Rightarrow> \<lparr>out_text = result, isError = False\<rparr>, log)"
  by (cases r) (simp_all add: call_tool_def call_tool_with_def dispatch_def server_handlers_def)

lemma call_tool_extract_strings:
  "call_extract_strings E arguments = Some (r, log) \<Longrightarrow>
   call_tool E ''extract_strings'' arguments =
     Some (case r of
             Inl e \<Rightarrow> \<lparr>out_text = ''Error executing extract_strings: '' @ str_exn e,
                       isError = True\<rparr>
           | Inr result \<Rightarrow> \<lparr>out_text = result, isError = False\<rparr>, log)"
  by (cases r) (simp_all add: call_tool_def call_tool_with_def dispatch_def server_handlers_def)

lemma call_tool_list_permissions:
  "call_list_permissions E arguments = Some (r, log) \<Longrightarrow>
   call_tool E ''list_permissions'' arguments =
     Some (case r of
             Inl e \<Rightarrow> \<lparr>out_text = ''Error executing list_permissions: '' @ str_exn e,
                       isError = True\<rparr>
           | Inr result \<Rightarrow> \<lparr>out_text = result, isError = False\<rparr>, log)"
  by (cases r) (simp_all add: call_tool_def call_tool_with_def dispatch_def server_handlers_def)

lemma call_tool_find_smali_references:
  "call_find_smali_references E arguments = Some (r, log) \<Longrightarrow>
   call_tool E ''find_smali_references'' arguments =
     Some (case r of
             Inl e \<Rightarrow> \<lparr>out_text = ''Error executing find_smali_references: '' @ str_exn e,
                       isError = True\<rparr>
           | Inr result \<Rightarrow> \<lparr>out_text = result, isError = False\<rparr>, log)"
  by (cases r) (simp_all add: call_tool_def call_tool_with_def dispatch_def server_handlers_def)

lemma call_tool_get_apk_info:
  "call_get_apk_info E arguments = Some (r, log) \<Longrightarrow>
   call_tool E ''get_apk_info'' arguments =
     Some (case r of
             Inl e \<Rightarrow> \<lparr>out_text = ''Error executing get_apk_info: '' @ str_exn e, isError = True\<rparr>
           | Inr result \<Rightarrow> \<lparr>out_text = result, isError = False\<rparr>, log)"
  by (cases r) (simp_all add: call_tool_def call_tool_with_def dispatch_def server_handlers_def)

text \<open>
  Claim C2. For a name that is none of the eight tools, the outcome is the error
  text \<open>Error executing <name>: Unknown tool: <name>\<close> with the error flag set and
  no process requested, whatever the handlers are, so none of them is invoked. For
  each of the eight tools, whatever its handler does with the arguments is what
  the caller gets: when the handler raises \<open>e\<close>, while binding the arguments or in
  its body, the outcome is the text \<open>Error executing <tool>: \<close> followed by
  \<open>str(e)\<close> with the error flag set; when it returns a text, the outcome is that
  text with the error flag not set; in both cases with the processes that the
  handler requested.
\<close>

theorem call_tool_error_outcomes:
  "(name \<notin> set tool_names \<longrightarrow>
      call_tool_with H name arguments =
        Some (\<lparr>out_text = ''Error executing '' @ name @ '': Unknown tool: '' @ name,
               isError = True\<rparr>, [])
      \<and> call_tool E name arguments =
        Some (\<lparr>out_text = ''Error executing '' @ name @ '': Unknown tool: '' @ name,
               isError = True\<rparr>, []))
   \<and> (call_decode_apk E arguments = Some (r, log) \<longrightarrow>
      call_tool E ''decode_apk'' arguments =
        Some (case r of
                Inl e \<Rightarrow> \<lparr>out_text = ''Error executing decode_apk: '' @ str_exn e,
                          isError = True\<rparr>
              | Inr result \<Rightarrow> \<lparr>out_text = result, isError = False\<rparr>, log))
   \<and> (call_build_apk E arguments = Some (r, log) \<longrightarrow>
      call_tool E ''build_apk'' arguments =
        Some (case r of
                Inl e \<Rightarrow> \<lparr>out_text = ''Error executing build_apk: '' @ str_exn e,
                          isError = True\<rparr>
              | Inr result \<Rightarrow> \<lparr>out_text = result, isError = False\<rparr>, log))
   \<and> (call_install_framework E arguments = Some (r, log) \<longrightarrow>
      call_tool E ''install_framework'' arguments =
        Some (case r of
                Inl e \<Rightarrow> \<lparr>out_text = ''Error executing install_framework: '' @ str_exn e,
                          isError = True\<rparr>
              | Inr result \<Rightarrow> \<lparr>out_text = result, isError = False\<rparr>, log))
   \<and> (call_analyze_manifest E arguments = Some (r, log) \<longrightarrow>
      call_tool E ''analyze_manifest'' arguments =
        Some (case r of
                Inl e \<Rightarrow> \<lparr>out_text = ''Error executing analyze_manifest: '' @ str_exn e,
                          isError = True\<rparr>
              | Inr result \<Rightarrow> \<lparr>out_text = result, isError = False\<rparr>, log))
   \<and> (call_extract_strings E arguments = Some (r, log) \<longrightarrow>
      call_tool E ''extract_strings'' arguments =
        Some (case r of
                Inl e \<Rightarrow> \<lparr>out_text = ''Error executing extract_strings: '' @ str_exn e,
                          isError = True\<rparr>
              | Inr result \<Rightarrow> \<lparr>out_text = result, isError = False\<rparr>, log))
   \<and> (call_list_permissions E arguments = Some (r, log) \<longrightarrow>
      call_tool E ''list_permissions'' arguments =
        Some (case r of
                Inl e \<Rightarrow> \<lparr>out_text = ''Error executing list_permissions: '' @ str_exn e,
                          isError = True\<rparr>
              | Inr result \<Rightarrow> \<lparr>out_text = result, isError = False\<rparr>, log))
   \<and> (call_find_smali_references E arguments = Some (r, log) \<longrightarrow>
      call_tool E ''find_smali_references'' arguments =
        Some (case r of
                Inl e \<Rightarrow> \<lparr>out_text = ''Error executing find_smali_references: '' @ str_exn e,
                          isError = True\<rparr>
              | Inr result \<Rightarrow> \<lparr>out_text = result, isError = False\<rparr>, log))
   \<and> (call_get_apk_info E arguments = Some (r, log) \<longrightarrow>
      call_tool E ''get_apk_info'' arguments =
        Some (case r of
                Inl e \<Rightarrow> \<lparr>out_text = ''Error executing get_apk_info: '' @ str_exn e,
                          isError = True\<rparr>
              | Inr result \<Rightarrow> \<lparr>out_text = result, isError = False\<rparr>, log))"
proof (intro conjI impI)
  assume "name \<notin> set tool_names"
  then show "call_tool_with H name arguments =
        Some (\<lparr>out_text = ''Error executing '' @ name @ '': Unknown tool: '' @ name,
               isError = True\<rparr>, [])"
    by (simp add: call_tool_with_def dispatch_unknown)
next
  assume "name \<notin> set tool_names"
  then show "call_tool E name arguments =
        Some (\<lparr>out_text = ''Error executing '' @ name @ '': Unknown tool: '' @ name,
               isError = True\<rparr>, [])"
    by (simp add: call_tool_def call_tool_with_def dispatch_unknown)
qed (erule call_tool_decode_apk call_tool_build_apk call_tool_install_framework
       call_tool_analyze_manifest call_tool_extract_strings call_tool_list_permissions
       call_tool_find_smali_references call_tool_get_apk_info)+

lemma demo_handler_raises:
  "call_decode_apk (demo_env spawn_missing) [(''apk_path'', VStr ''/in/a b;c.apk'')] =
     Some (Inl (RuntimeError (''Failed to execute command: apktool d /in/a b;c.apk -o /w/a b;c''
                              @ nl @ ''Error: [Errno 2] No such file or directory'')),
           [([''apktool'', ''d'', ''/in/a b;c.apk'', ''-o'', ''/w/a b;c''], Path ''/w'')])"
  "call_build_apk (demo_env spawn_ok) [(''source_dir'', VStr ''/in/missing'')] =
     Some (Inl (FileNotFoundError ''Source directory not found: /in/missing''), [])"
  "call_install_framework (demo_env spawn_ok) [(''framework_path'', VStr ''/in/missing.apk'')] =
     Some (Inl (FileNotFoundError ''Framework file not found: /in/missing.apk''), [])"
  "call_analyze_manifest (demo_env spawn_ok) [(''apk_dir'', VStr ''/bare'')] =
     Some (Inl (FileNotFoundError ''AndroidManifest.xml not found in: /bare''), [])"
  "call_extract_strings (demo_env spawn_ok) [(''apk_dir'', VStr ''/proj'')] =
     Some (Inl (FileNotFoundError ''Resources directory not found: /proj/res''), [])"
  "call_list_permissions (demo_env spawn_ok) [(''apk_dir'', VStr ''/bare'')] =
     Some (Inl (FileNotFoundError ''AndroidManifest.xml not found in: /bare''), [])"
  "call_find_smali_references (demo_env spawn_ok)
     [(''apk_dir'', VStr ''/in/missing''), (''pattern'', VStr ''x'')] =
     Some (Inl (OSError 2 ''No such file or directory''), [])"
  "call_get_apk_info (demo_env spawn_ok) [(''apk_path'', VStr ''/locked/a.apk'')] =
     Some (Inl (OSError 13 ''Permission denied''), [])"
proof -
  have v: "[apktool_path (demo_env spawn_missing), ''d'', str_path (Path ''/in/a b;c.apk'')]
           @ (if False then [''-f''] else []) @ (if False then [''-r''] else [])
           @ (if False then [''-s''] else [])
           @ [''-o'', str_path (pjoin (work_dir (demo_env spawn_missing))
                        (case None of None \<Rightarrow> stem (Path ''/in/a b;c.apk'')
                         | Some d \<Rightarrow> if d = [] then stem (Path ''/in/a b;c.apk'') else d))] =
           [''apktool'', ''d'', ''/in/a b;c.apk'', ''-o'', ''/w/a b;c'']"
    by (simp add: demo_settings demo_texts)
  show "call_decode_apk (demo_env spawn_missing) [(''apk_path'', VStr ''/in/a b;c.apk'')] =
     Some (Inl (RuntimeError (''Failed to execute command: apktool d /in/a b;c.apk -o /w/a b;c''
                              @ nl @ ''Error: [Errno 2] No such file or directory'')),
           [([''apktool'', ''d'', ''/in/a b;c.apk'', ''-o'', ''/w/a b;c''], Path ''/w'')])"
    using demo_exists_apk [of spawn_missing]
    by (simp add: call_decode_apk_def bind_kwargs_def req_str_def opt_str_def bool_or_def
          decode_apk_def Let_def demo_settings demo_texts run_command_spawn spawn_missing_def
          no_entry_def str_nat_small)
  show "call_build_apk (demo_env spawn_ok) [(''source_dir'', VStr ''/in/missing'')] =
     Some (Inl (FileNotFoundError ''Source directory not found: /in/missing''), [])"
    by (simp add: call_build_apk_def bind_kwargs_def req_str_def opt_str_def bool_or_def
          build_apk_def Let_def exists_def demo_env_def Path_def path_root_def no_entry_def)
  show "call_install_framework (demo_env spawn_ok) [(''framework_path'', VStr ''/in/missing.apk'')] =
     Some (Inl (FileNotFoundError ''Framework file not found: /in/missing.apk''), [])"
    by (simp add: call_install_framework_def bind_kwargs_def req_str_def opt_str_def
          install_framework_def Let_def exists_def demo_env_def Path_def path_root_def no_entry_def)
  show "call_analyze_manifest (demo_env spawn_ok) [(''apk_dir'', VStr ''/bare'')] =
     Some (Inl (FileNotFoundError ''AndroidManifest.xml not found in: /bare''), [])"
    by (simp add: call_analyze_manifest_def bind_kwargs_def req_str_def
          analyze_manifest_def Let_def exists_def demo_env_def Path_def path_root_def pjoin_def
          no_entry_def)
  show "call_extract_strings (demo_env spawn_ok) [(''apk_dir'', VStr ''/proj'')] =
     Some (Inl (FileNotFoundError ''Resources directory not found: /proj/res''), [])"
    by (simp add: call_extract_strings_def bind_kwargs_def req_str_def str_or_def
          extract_strings_def Let_def exists_def demo_env_def Path_def path_root_def pjoin_def
          str_path_def no_entry_def)
  show "call_list_permissions (demo_env spawn_ok) [(''apk_dir'', VStr ''/bare'')] =
     Some (Inl (FileNotFoundError ''AndroidManifest.xml not found in: /bare''), [])"
    by (simp add: call_list_permissions_def bind_kwargs_def req_str_def
          list_permissions_def Let_def exists_def demo_env_def Path_def path_root_def pjoin_def
          no_entry_def)
  show "call_find_smali_references (demo_env spawn_ok)
     [(''apk_dir'', VStr ''/in/missing''), (''pattern'', VStr ''x'')] =
     Some (Inl (OSError 2 ''No such file or directory''), [])"
    by (simp add: call_find_smali_references_def bind_kwargs_def req_str_def bool_or_def
          find_smali_references_def Let_def demo_env_def Path_def path_root_def no_entry_def)
  show "call_get_apk_info (demo_env spawn_ok) [(''apk_path'', VStr ''/locked/a.apk'')] =
     Some (Inl (OSError 13 ''Permission denied''), [])"
    by (simp add: call_get_apk_info_def bind_kwargs_def req_str_def
          get_apk_info_def Let_def exists_def demo_env_def Path_def path_root_def denied_def)
qed

text \<open>
  The theorem at the unregistered name \<open>frobnicate\<close> and, for each tool, at a
  request whose handler raises: a decoder whose executable is not there, a source
  directory, a framework file, two manifests and a resource directory that do not
  exist, a project directory that cannot be listed and an APK below a directory
  that may not be searched.
\<close>

theorem call_tool_error_outcomes_witness:
  "call_tool (demo_env spawn_ok) ''frobnicate'' [(''apk_path'', VStr ''/in/a b;c.apk'')] =
     Some (\<lparr>out_text = ''Error executing frobnicate: Unknown tool: frobnicate'', isError = True\<rparr>, [])
   \<and> call_tool (demo_env spawn_missing) ''decode_apk'' [(''apk_path'', VStr ''/in/a b;c.apk'')] =
     Some (\<lparr>out_text = ''Error executing decode_apk: Failed to execute command: ''
                        @ ''apktool d /in/a b;c.apk -o /w/a b;c'' @ nl
                        @ ''Error: [Errno 2] No such file or directory'',
            isError = True\<rparr>,
           [([''apktool'', ''d'', ''/in/a b;c.apk'', ''-o'', ''/w/a b;c''], Path ''/w'')])
   \<and> call_tool (demo_env spawn_ok) ''build_apk'' [(''source_dir'', VStr ''/in/missing'')] =
     Some (\<lparr>out_text = ''Error executing build_apk: Source directory not found: /in/missing'',
            isError = True\<rparr>, [])
   \<and> call_tool (demo_env spawn_ok) ''install_framework''
       [(''framework_path'', VStr ''/in/missing.apk'')] =
     Some (\<lparr>out_text = ''Error executing install_framework: ''
                        @ ''Framework file not found: /in/missing.apk'',
            isError = True\<rparr>, [])
   \<and> call_tool (demo_env spawn_ok) ''analyze_manifest'' [(''apk_dir'', VStr ''/bare'')] =
     Some (\<lparr>out_text = ''Error executing analyze_manifest: ''
                        @ ''AndroidManifest.xml not found in: /bare'',
            isError = True\<rparr>, [])
   \<and> call_tool (demo_env spawn_ok) ''extract_strings'' [(''apk_dir'', VStr ''/proj'')] =
     Some (\<lparr>out_text = ''Error executing extract_strings: ''
                        @ ''Resources directory not found: /proj/res'',
            isError = True\<rparr>, [])
   \<and> call_tool (demo_env spawn_ok) ''list_permissions'' [(''apk_dir'', VStr ''/bare'')] =
     Some (\<lparr>out_text = ''Error executing list_permissions: ''
                        @ ''AndroidManifest.xml not found in: /bare'',
            isError = True\<rparr>, [])
   \<and> call_tool (demo_env spawn_ok) ''find_smali_references''
       [(''apk_dir'', VStr ''/in/missing''), (''pattern'', VStr ''x'')] =
     Some (\<lparr>out_text = ''Error executing find_smali_references: ''
                        @ ''[Errno 2] No such file or directory'',
            isError = True\<rparr>, [])
   \<and> call_tool (demo_env spawn_ok) ''get_apk_info'' [(''apk_path'', VStr ''/locked/a.apk'')] =
     Some (\<lparr>out_text = ''Error executing get_apk_info: [Errno 13] Permission denied'',
            isError = True\<rparr>, [])"
proof -
  have n: "''frobnicate'' \<notin> set tool_names"
    by (simp add: tool_names_def tool_required_def)
  have 0: "call_tool (demo_env spawn_ok) ''frobnicate'' [(''apk_path'', VStr ''/in/a b;c.apk'')] =
     Some (\<lparr>out_text = ''Error executing frobnicate: Unknown tool: frobnicate'', isError = True\<rparr>, [])"
    using n call_tool_error_outcomes [where name = "''frobnicate''"
        and H = "server_handlers (demo_env spawn_ok)" and E = "demo_env spawn_ok"
        and arguments = "[(''apk_path'', VStr ''/in/a b;c.apk'')]" and r = "Inr []" and log = "[]"]
    by simp
  have 1: "call_tool (demo_env spawn_missing) ''decode_apk'' [(''apk_path'', VStr ''/in/a b;c.apk'')] =
     Some (\<lparr>out_text = ''Error executing decode_apk: Failed to execute command: ''
                        @ ''apktool d /in/a b;c.apk -o /w/a b;c'' @ nl
                        @ ''Error: [Errno 2] No such file or directory'',
            isError = True\<rparr>,
           [([''apktool'', ''d'', ''/in/a b;c.apk'', ''-o'', ''/w/a b;c''], Path ''/w'')])"
    using demo_handler_raises(1) call_tool_error_outcomes [where name = "''decode_apk''"
        and H = "server_handlers (demo_env spawn_missing)" and E = "demo_env spawn_missing"
        and arguments = "[(''apk_path'', VStr ''/in/a b;c.apk'')]"
        and r = "Inl (RuntimeError (''Failed to execute command: apktool d /in/a b;c.apk -o /w/a b;c''
                              @ nl @ ''Error: [Errno 2] No such file or directory''))"
        and log = "[([''apktool'', ''d'', ''/in/a b;c.apk'', ''-o'', ''/w/a b;c''], Path ''/w'')]"]
    by simp
  have 2: "call_tool (demo_env spawn_ok) ''build_apk'' [(''source_dir'', VStr ''/in/missing'')] =
     Some (\<lparr>out_text = ''Error executing build_apk: Source directory not found: /in/missing'',
            isError = True\<rparr>, [])"
    using demo_handler_raises(2) call_tool_error_outcomes [where name = "''build_apk''"
        and H = "server_handlers (demo_env spawn_ok)" and E = "demo_env spawn_ok"
        and arguments = "[(''source_dir'', VStr ''/in/missing'')]"
        and r = "Inl (FileNotFoundError ''Source directory not found: /in/missing'')"
        and log = "[]"]
    by simp
  have 3: "call_tool (demo_env spawn_ok) ''install_framework''
       [(''framework_path'', VStr ''/in/missing.apk'')] =
     Some (\<lparr>out_text = ''Error executing install_framework: ''
                        @ ''Framework file not found: /in/missing.apk'',
            isError = True\<rparr>, [])"
    using demo_handler_raises(3) call_tool_error_outcomes [where name = "''install_framework''"
        and H = "server_handlers (demo_env spawn_ok)" and E = "demo_env spawn_ok"
        and arguments = "[(''framework_path'', VStr ''/in/missing.apk'')]"
        and r = "Inl (FileNotFoundError ''Framework file not found: /in/missing.apk'')"
        and log = "[]"]
    by simp
  have 4: "call_tool (demo_env spawn_ok) ''analyze_manifest'' [(''apk_dir'', VStr ''/bare'')] =
     Some (\<lparr>out_text = ''Error executing analyze_manifest: ''
                        @ ''AndroidManifest.xml not found in: /bare'',
            isError = True\<rparr>, [])"
    using demo_handler_raises(4) call_tool_error_outcomes [where name = "''analyze_manifest''"
        and H = "server_handlers (demo_env spawn_ok)" and E = "demo_env spawn_ok"
        and arguments = "[(''apk_dir'', VStr ''/bare'')]"
        and r = "Inl (FileNotFoundError ''AndroidManifest.xml not found in: /bare'')"
        and log = "[]"]
    by simp
  have 5: "call_tool (demo_env spawn_ok) ''extract_strings'' [(''apk_dir'', VStr ''/proj'')] =
     Some (\<lparr>out_text = ''Error executing extract_strings: ''
                        @ ''Resources directory not found: /proj/res'',
            isError = True\<rparr>, [])"
    using demo_handler_raises(5) call_tool_error_outcomes [where name = "''extract_strings''"
        and H = "server_handlers (demo_env spawn_ok)" and E = "demo_env spawn_ok"
        and arguments = "[(''apk_dir'', VStr ''/proj'')]"
        and r = "Inl (FileNotFoundError ''Resources directory not found: /proj/res'')"
        and log = "[]"]
    by simp
  have 6: "call_tool (demo_env spawn_ok) ''list_permissions'' [(''apk_dir'', VStr ''/bare'')] =
     Some (\<lparr>out_text = ''Error executing list_permissions: ''
                        @ ''AndroidManifest.xml not found in: /bare'',
            isError = True\<rparr>, [])"
    using demo_handler_raises(6) call_tool_error_outcomes [where name = "''list_permissions''"
        and H = "server_handlers (demo_env spawn_ok)" and E = "demo_env spawn_ok"
        and arguments = "[(''apk_dir'', VStr ''/bare'')]"
        and r = "Inl (FileNotFoundError ''AndroidManifest.xml not found in: /bare'')"
        and log = "[]"]
    by simp
  have 7: "call_tool (demo_env spawn_ok) ''find_smali_references''
       [(''apk_dir'', VStr ''/in/missing''), (''pattern'', VStr ''x'')] =
     Some (\<lparr>out_text = ''Error executing find_smali_references: ''
                        @ ''[Errno 2] No such file or directory'',
            isError = True\<rparr>, [])"
    using demo_handler_raises(7) call_tool_error_outcomes [where name = "''find_smali_references''"
        and H = "server_handlers (demo_env spawn_ok)" and E = "demo_env spawn_ok"
        and arguments = "[(''apk_dir'', VStr ''/in/missing''), (''pattern'', VStr ''x'')]"
        and r = "Inl (OSError 2 ''No such file or directory'')"
        and log = "[]"]
    by (simp add: str_nat_small)
  have 8: "call_tool (demo_env spawn_ok) ''get_apk_info'' [(''apk_path'', VStr ''/locked/a.apk'')] =
     Some (\<lparr>out_text = ''Error executing get_apk_info: [Errno 13] Permission denied'',
            isError = True\<rparr>, [])"
    using demo_handler_raises(8) call_tool_error_outcomes [where name = "''get_apk_info''"
        and H = "server_handlers (demo_env spawn_ok)" and E = "demo_env spawn_ok"
        and arguments = "[(''apk_path'', VStr ''/locked/a.apk'')]"
        and r = "Inl (OSError 13 ''Permission denied'')"
        and log = "[]"]
    by (simp add: str_nat_small)
  from 0 1 2 3 4 5 6 7 8 show ?thesis by simp
qed

section \<open>Dispatch: a required argument is absent\<close>

lemma bind_kwargs_missing:
  assumes "''self'' \<notin> set params"
    and "set (map fst arguments) \<subseteq> set params"
    and "missing = filter (\<lambda>r. r \<notin> set (map fst arguments)) required"
    and "missing \<noteq> []"
  shows "bind_kwargs fname params required arguments =
     Inl (TypeError (fname @ ''() missing '' @ str_nat (length missing)
            @ '' required positional argument''
            @ (if length missing = 1 then [] else ''s'')
            @ '': '' @ format_missing missing))"
proof -
  have "find (\<lambda>k. k = ''self'' \<or> k \<notin> set params) (map fst arguments) = None"
    using assms(1,2) by (auto simp: find_None_iff)
  then show ?thesis
    using assms(3,4) by (simp add: bind_kwargs_def Let_def)
qed

lemma bind_kwargs_undeclared:
  assumes "''self'' \<notin> set params"
    and "find (\<lambda>k. k \<notin> set params) (map fst arguments) = Some k"
  shows "bind_kwargs fname params required arguments =
     Inl (TypeError (fname @ ''() got ''
            @ (if k = ''self'' then ''multiple values for argument ''
               else ''an unexpected keyword argument '')
            @ quote @ k @ quote))"
proof -
  have "(\<lambda>k. k = ''self'' \<or> k \<notin> set params) = (\<lambda>k. k \<notin> set params)"
    using assms(1) by auto
  then have "find (\<lambda>k. k = ''self'' \<or> k \<notin> set params) (map fst arguments) = Some k"
    using assms(2) by simp
  then show ?thesis
    by (simp add: bind_kwargs_def)
qed

lemma tool_required_cases:
  "(name, required) \<in> set tool_required \<Longrightarrow>
     (name = ''decode_apk'' \<and> required = [''apk_path''])
   \<or> (name = ''build_apk'' \<and> required = [''source_dir''])
   \<or> (name = ''install_framework'' \<and> required = [''framework_path''])
   \<or> (name = ''analyze_manifest'' \<and> required = [''apk_dir''])
   \<or> (name = ''extract_strings'' \<and> required = [''apk_dir''])
   \<or> (name = ''list_permissions'' \<and> required = [''apk_dir''])
   \<or> (name = ''find_smali_references'' \<and> required = [''apk_dir'', ''pattern''])
   \<or> (name = ''get_apk_info'' \<and> required = [''apk_path''])"
  unfolding tool_required_def by (simp only: list.set insert_iff empty_iff prod.inject simp_thms)

lemma tool_params_self:
  "(''decode_apk'', params) \<in> set tool_params \<Longrightarrow>
     params = [''apk_path'', ''output_dir'', ''force'', ''no_res'', ''no_src''] \<and> ''self'' \<notin> set params"
  "(''build_apk'', params) \<in> set tool_params \<Longrightarrow>
     params = [''source_dir'', ''output_apk'', ''force''] \<and> ''self'' \<notin> set params"
  "(''install_framework'', params) \<in> set tool_params \<Longrightarrow>
     params = [''framework_path'', ''tag''] \<and> ''self'' \<notin> set params"
  "(''analyze_manifest'', params) \<in> set tool_params \<Longrightarrow>
     params = [''apk_dir''] \<and> ''self'' \<notin> set params"
  "(''extract_strings'', params) \<in> set tool_params \<Longrightarrow>
     params = [''apk_dir'', ''locale''] \<and> ''self'' \<notin> set params"
  "(''list_permissions'', params) \<in> set tool_params \<Longrightarrow>
     params = [''apk_dir''] \<and> ''self'' \<notin> set params"
  "(''find_smali_references'', params) \<in> set tool_params \<Longrightarrow>
     params = [''apk_dir'', ''pattern'', ''case_sensitive''] \<and> ''self'' \<notin> set params"
  "(''get_apk_info'', params) \<in> set tool_params \<Longrightarrow>
     params = [''apk_path''] \<and> ''self'' \<notin> set params"
  by (simp_all add: tool_params_def)

lemma call_tool_bind_decode_apk:
  "bind_kwargs (''ApktoolMCPServer._'' @ ''decode_apk'')
     [''apk_path'', ''output_dir'', ''force'', ''no_res'', ''no_src''] [''apk_path''] arguments = Inl e \<Longrightarrow>
   call_tool E ''decode_apk'' arguments =
     Some (\<lparr>out_text = ''Error executing '' @ ''decode_apk'' @ '': '' @ str_exn e, isError = True\<rparr>, [])"
  by (simp add: call_tool_def call_tool_with_def dispatch_def server_handlers_def call_decode_apk_def)

lemma call_tool_bind_build_apk:
  "bind_kwargs (''ApktoolMCPServer._'' @ ''build_apk'')
     [''source_dir'', ''output_apk'', ''force''] [''source_dir''] arguments = Inl e \<Longrightarrow>
   call_tool E ''build_apk'' arguments =
     Some (\<lparr>out_text = ''Error executing '' @ ''build_apk'' @ '': '' @ str_exn e, isError = True\<rparr>, [])"
  by (simp add: call_tool_def call_tool_with_def dispatch_def server_handlers_def call_build_apk_def)

lemma call_tool_bind_install_framework:
  "bind_kwargs (''ApktoolMCPServer._'' @ ''install_framework'')
     [''framework_path'', ''tag''] [''framework_path''] arguments = Inl e \<Longrightarrow>
   call_tool E ''install_framework'' arguments =
     Some (\<lparr>out_text = ''Error executing '' @ ''install_framework'' @ '': '' @ str_exn e,
            isError = True\<rparr>, [])"
  by (simp add: call_tool_def call_tool_with_def dispatch_def server_handlers_def
        call_install_framework_def)

lemma call_tool_bind_analyze_manifest:
  "bind_kwargs (''ApktoolMCPServer._'' @ ''analyze_manifest'') [''apk_dir''] [''apk_dir''] arguments = Inl e \<Longrightarrow>
   call_tool E ''analyze_manifest'' arguments =
     Some (\<lparr>out_text = ''Error executing '' @ ''analyze_manifest'' @ '': '' @ str_exn e,
            isError = True\<rparr>, [])"
  by (simp add: call_tool_def call_tool_with_def dispatch_def server_handlers_def
        call_analyze_manifest_def)

lemma call_tool_bind_extract_strings:
  "bind_kwargs (''ApktoolMCPServer._'' @ ''extract_strings'')
     [''apk_dir'', ''locale''] [''apk_dir''] arguments = Inl e \<Longrightarrow>
   call_tool E ''extract_strings'' arguments =
     Some (\<lparr>out_text = ''Error executing '' @ ''extract_strings'' @ '': '' @ str_exn e,
            isError = True\<rparr>, [])"
  by (simp add: call_tool_def call_tool_with_def dispatch_def server_handlers_def
        call_extract_strings_def)

lemma call_tool_bind_list_permissions:
  "bind_kwargs (''ApktoolMCPServer._'' @ ''list_permissions'') [''apk_dir''] [''apk_dir''] arguments = Inl e \<Longrightarrow>
   call_tool E ''list_permissions'' arguments =
     Some (\<lparr>out_text = ''Error executing '' @ ''list_permissions'' @ '': '' @ str_exn e,
            isError = True\<rparr>, [])"
  by (simp add: call_tool_def call_tool_with_def dispatch_def server_handlers_def
        call_list_permissions_def)

lemma call_tool_bind_find_smali_references:
  "bind_kwargs (''ApktoolMCPServer._'' @ ''find_smali_references'')
     [''apk_dir'', ''pattern'', ''case_sensitive''] [''apk_dir'', ''pattern''] arguments = Inl e \<Longrightarrow>
   call_tool E ''find_smali_references'' arguments =
     Some (\<lparr>out_text = ''Error executing '' @ ''find_smali_references'' @ '': '' @ str_exn e,
            isError = True\<rparr>, [])"
  by (simp add: call_tool_def call_tool_with_def dispatch_def server_handlers_def
        call_find_smali_references_def)

lemma call_tool_bind_get_apk_info:
  "bind_kwargs (''ApktoolMCPServer._'' @ ''get_apk_info'') [''apk_path''] [''apk_path''] arguments = Inl e \<Longrightarrow>
   call_tool E ''get_apk_info'' arguments =
     Some (\<lparr>out_text = ''Error executing '' @ ''get_apk_info'' @ '': '' @ str_exn e, isError = True\<rparr>, [])"
  by (simp add: call_tool_def call_tool_with_def dispatch_def server_handlers_def
        call_get_apk_info_def)

lemma call_tool_bind:
  assumes "(name, required) \<in> set tool_required"
    and "(name, params) \<in> set tool_params"
    and "bind_kwargs (''ApktoolMCPServer._'' @ name) params required arguments = Inl e"
  shows "call_tool E name arguments =
     Some (\<lparr>out_text = ''Error executing '' @ name @ '': '' @ str_exn e, isError = True\<rparr>, [])"
  using tool_required_cases [OF assms(1)]
proof (elim disjE conjE)
  assume n: "name = ''decode_apk''" and r: "required = [''apk_path'']"
  from assms(2) have p: "params = [''apk_path'', ''output_dir'', ''force'', ''no_res'', ''no_src'']"
    unfolding n by (simp add: tool_params_self)
  show ?thesis
    using assms(3) unfolding n r p by (rule call_tool_bind_decode_apk)
next
  assume n: "name = ''build_apk''" and r: "required = [''source_dir'']"
  from assms(2) have p: "params = [''source_dir'', ''output_apk'', ''force'']"
    unfolding n by (simp add: tool_params_self)
  show ?thesis
    using assms(3) unfolding n r p by (rule call_tool_bind_build_apk)
next
  assume n: "name = ''install_framework''" and r: "required = [''framework_path'']"
  from assms(2) have p: "params = [''framework_path'', ''tag'']"
    unfolding n by (simp add: tool_params_self)
  show ?thesis
    using assms(3) unfolding n r p by (rule call_tool_bind_install_framework)
next
  assume n: "name = ''analyze_manifest''" and r: "required = [''apk_dir'']"
  from assms(2) have p: "params = [''apk_dir'']"
    unfolding n by (simp add: tool_params_self)
  show ?thesis
    using assms(3) unfolding n r p by (rule call_tool_bind_analyze_manifest)
next
  assume n: "name = ''extract_strings''" and r: "required = [''apk_dir'']"
  from assms(2) have p: "params = [''apk_dir'', ''locale'']"
    unfolding n by (simp add: tool_params_self)
  show ?thesis
    using assms(3) unfolding n r p by (rule call_tool_bind_extract_strings)
next
  assume n: "name = ''list_permissions''" and r: "required = [''apk_dir'']"
  from assms(2) have p: "params = [''apk_dir'']"
    unfolding n by (simp add: tool_params_self)
  show ?thesis
    using assms(3) unfolding n r p by (rule call_tool_bind_list_permissions)
next
  assume n: "name = ''find_smali_references''" and r: "required = [''apk_dir'', ''pattern'']"
  from assms(2) have p: "params = [''apk_dir'', ''pattern'', ''case_sensitive'']"
    unfolding n by (simp add: tool_params_self)
  show ?thesis
    using assms(3) unfolding n r p by (rule call_tool_bind_find_smali_references)
next
  assume n: "name = ''get_apk_info''" and r: "required = [''apk_path'']"
  from assms(2) have p: "params = [''apk_path'']"
    unfolding n by (simp add: tool_params_self)
  show ?thesis
    using assms(3) unfolding n r p by (rule call_tool_bind_get_apk_info)
qed

lemma tool_params_no_self:
  assumes "(name, required) \<in> set tool_required" and "(name, params) \<in> set tool_params"
  shows "''self'' \<notin> set params"
  using tool_required_cases [OF assms(1)] assms(2)
  by (elim disjE conjE) (simp_all add: tool_params_self)

text \<open>
  Claim C3, amended. The arguments are bound by the call
  \<^verbatim>\<open>self._handler(**arguments)\<close>; \<open>call_tool\<close> has no check of its own. For a
  registered tool and a request whose argument names are all properties of the
  tool's input schema, when required arguments are absent the outcome is an error
  whose text names exactly the absent required arguments, in the order of the
  signature; the handler's body does not run and no process is requested. For a
  registered tool and a request that carries a name which the schema does not
  declare, the outcome is an error about the first such name of the request and
  about nothing else, whether or not required arguments are absent:
  \<open>got multiple values for argument\<close> for the name \<open>self\<close> and
  \<open>got an unexpected keyword argument\<close> for every other name; again no process
  is requested.
\<close>

theorem missing_argument_reported:
  assumes "(name, required) \<in> set tool_required"
    and "(name, params) \<in> set tool_params"
  shows "(set (map fst arguments) \<subseteq> set params
          \<and> missing = filter (\<lambda>r. r \<notin> set (map fst arguments)) required
          \<and> missing \<noteq> [] \<longrightarrow>
          call_tool E name arguments =
            Some (\<lparr>out_text = ''Error executing '' @ name @ '': ApktoolMCPServer._'' @ name
                               @ ''() missing '' @ str_nat (length missing)
                               @ '' required positional argument''
                               @ (if length missing = 1 then [] else ''s'')
                               @ '': '' @ format_missing missing,
                   isError = True\<rparr>, []))
         \<and> (find (\<lambda>k. k \<notin> set params) (map fst arguments) = Some k \<longrightarrow>
          call_tool E name arguments =
            Some (\<lparr>out_text = ''Error executing '' @ name @ '': ApktoolMCPServer._'' @ name
                               @ ''() got ''
                               @ (if k = ''self'' then ''multiple values for argument ''
                                  else ''an unexpected keyword argument '')
                               @ quote @ k @ quote,
                   isError = True\<rparr>, []))"
proof (intro conjI impI)
  note s = tool_params_no_self [OF assms]
  assume a: "set (map fst arguments) \<subseteq> set params
          \<and> missing = filter (\<lambda>r. r \<notin> set (map fst arguments)) required
          \<and> missing \<noteq> []"
  have "bind_kwargs (''ApktoolMCPServer._'' @ name) params required arguments =
     Inl (TypeError ((''ApktoolMCPServer._'' @ name) @ ''() missing '' @ str_nat (length missing)
            @ '' required positional argument''
            @ (if length missing = 1 then [] else ''s'')
            @ '': '' @ format_missing missing))"
    using a by (intro bind_kwargs_missing [OF s]) blast+
  from call_tool_bind [OF assms this, of E]
  show "call_tool E name arguments =
            Some (\<lparr>out_text = ''Error executing '' @ name @ '': ApktoolMCPServer._'' @ name
                               @ ''() missing '' @ str_nat (length missing)
                               @ '' required positional argument''
                               @ (if length missing = 1 then [] else ''s'')
                               @ '': '' @ format_missing missing,
                   isError = True\<rparr>, [])"
    by simp
next
  note s = tool_params_no_self [OF assms]
  assume a: "find (\<lambda>k. k \<notin> set params) (map fst arguments) = Some k"
  from call_tool_bind [OF assms bind_kwargs_undeclared [OF s a], of E]
  show "call_tool E name arguments =
            Some (\<lparr>out_text = ''Error executing '' @ name @ '': ApktoolMCPServer._'' @ name
                               @ ''() got ''
                               @ (if k = ''self'' then ''multiple values for argument ''
                                  else ''an unexpected keyword argument '')
                               @ quote @ k @ quote,
                   isError = True\<rparr>, [])"
    by simp
qed

text \<open>
  The theorem at a search request that gives the directory and the case flag but
  no pattern, where the error names \<open>pattern\<close> and nothing else; at a request for
  APK information that calls its argument \<open>path\<close>; and at a manifest request that
  carries \<open>self\<close> before the directory.
\<close>

theorem missing_argument_reported_witness:
  "call_tool (demo_env spawn_ok) ''find_smali_references''
     [(''apk_dir'', VStr ''/proj''), (''case_sensitive'', VBool False)] =
     Some (\<lparr>out_text = ''Error executing find_smali_references: ''
                        @ ''ApktoolMCPServer._find_smali_references() missing 1 required ''
                        @ ''positional argument: '' @ quote @ ''pattern'' @ quote,
            isError = True\<rparr>, [])
   \<and> call_tool (demo_env spawn_ok) ''get_apk_info'' [(''path'', VStr ''/in/a b;c.apk'')] =
     Some (\<lparr>out_text = ''Error executing get_apk_info: ApktoolMCPServer._get_apk_info() got an ''
                        @ ''unexpected keyword argument '' @ quote @ ''path'' @ quote,
            isError = True\<rparr>, [])
   \<and> call_tool (demo_env spawn_ok) ''analyze_manifest''
       [(''self'', VStr ''x''), (''apk_dir'', VStr ''/proj'')] =
     Some (\<lparr>out_text = ''Error executing analyze_manifest: ApktoolMCPServer._analyze_manifest() ''
                        @ ''got multiple values for argument '' @ quote @ ''self'' @ quote,
            isError = True\<rparr>, [])"
proof -
  have a: "(''find_smali_references'', [''apk_dir'', ''pattern'']) \<in> set tool_required"
    "(''get_apk_info'', [''apk_path'']) \<in> set tool_required"
    "(''analyze_manifest'', [''apk_dir'']) \<in> set tool_required"
    by (simp_all add: tool_required_def)
  have b: "(''find_smali_references'', [''apk_dir'', ''pattern'', ''case_sensitive'']) \<in> set tool_params"
    "(''get_apk_info'', [''apk_path'']) \<in> set tool_params"
    "(''analyze_manifest'', [''apk_dir'']) \<in> set tool_params"
    by (simp_all add: tool_params_def)
  have 1: "call_tool (demo_env spawn_ok) ''find_smali_references''
     [(''apk_dir'', VStr ''/proj''), (''case_sensitive'', VBool False)] =
     Some (\<lparr>out_text = ''Error executing find_smali_references: ''
                        @ ''ApktoolMCPServer._find_smali_references() missing 1 required ''
                        @ ''positional argument: '' @ quote @ ''pattern'' @ quote,
            isError = True\<rparr>, [])"
    using missing_argument_reported [OF a(1) b(1), where E = "demo_env spawn_ok"
        and arguments = "[(''apk_dir'', VStr ''/proj''), (''case_sensitive'', VBool False)]"
        and missing = "[''pattern'']" and k = "''x''"]
    by (simp add: str_nat_small)
  have 2: "call_tool (demo_env spawn_ok) ''get_apk_info'' [(''path'', VStr ''/in/a b;c.apk'')] =
     Some (\<lparr>out_text = ''Error executing get_apk_info: ApktoolMCPServer._get_apk_info() got an ''
                        @ ''unexpected keyword argument '' @ quote @ ''path'' @ quote,
            isError = True\<rparr>, [])"
    using missing_argument_reported [OF a(2) b(2), where E = "demo_env spawn_ok"
        and arguments = "[(''path'', VStr ''/in/a b;c.apk'')]"
        and missing = "[''apk_path'']" and k = "''path''"]
    by simp
  have 3: "call_tool (demo_env spawn_ok) ''analyze_manifest''
       [(''self'', VStr ''x''), (''apk_dir'', VStr ''/proj'')] =
     Some (\<lparr>out_text = ''Error executing analyze_manifest: ApktoolMCPServer._analyze_manifest() ''
                        @ ''got multiple values for argument '' @ quote @ ''self'' @ quote,
            isError = True\<rparr>, [])"
    using missing_argument_reported [OF a(3) b(3), where E = "demo_env spawn_ok"
        and arguments = "[(''self'', VStr ''x''), (''apk_dir'', VStr ''/proj'')]"
        and missing = "[]" and k = "''self''"]
    by simp
  from 1 2 3 show ?thesis by simp
qed

text \<open>
  Claim C3 as stated fails: a decode request that omits \<open>apk_path\<close> and carries
  the argument \<open>bogus\<close> is answered with an error about \<open>bogus\<close>, which does not
  name the absent \<open>apk_path\<close>.
\<close>

theorem unexpected_keyword_hides_missing:
  "call_tool (demo_env spawn_ok) ''decode_apk'' [(''bogus'', VStr ''x'')] =
     Some (\<lparr>out_text = ''Error executing decode_apk: ApktoolMCPServer._decode_apk() got an ''
                        @ ''unexpected keyword argument '' @ quote @ ''bogus'' @ quote,
            isError = True\<rparr>, [])
   \<and> \<not> contains ''apk_path''
         (''Error executing decode_apk: ApktoolMCPServer._decode_apk() got an ''
          @ ''unexpected keyword argument '' @ quote @ ''bogus'' @ quote)"
  by (simp add: call_tool_def call_tool_with_def dispatch_def server_handlers_def
        call_decode_apk_def bind_kwargs_def quote_def)

section \<open>APK information and its fallback\<close>












section \<open>Searching smali code: no smali directory\<close>

lemma path_name_child: "path_name (child p n) = n"
  by (simp add: path_name_def child_def)

lemma smali_dirs_none:
  "\<forall>item\<in>set items. \<exists>d. is_dir E item = Inr d \<and> \<not> (d \<and> startswith (path_name item) ''smali'') \<Longrightarrow>
   smali_dirs E items = Inr []"
  by (induction items) auto

lemma smali_dirs_raises:
  "\<forall>x\<in>set pre. \<exists>d. is_dir E x = Inr d \<Longrightarrow> is_dir E item = Inl e \<Longrightarrow>
   smali_dirs E (pre @ item # post) = Inl e"
  by (induction pre) auto

lemma find_smali_references_none:
  assumes "listdir E (Path apk_dir) = Inr names"
    and "\<forall>n\<in>set names. \<exists>d. is_dir E (child (Path apk_dir) n) = Inr d
                              \<and> \<not> (d \<and> startswith n ''smali'')"
  shows "find_smali_references E apk_dir pattern case_sensitive =
     (Inr ''No smali directories found'', [])"
proof -
  have "smali_dirs E (map (child (Path apk_dir)) names) = Inr []"
    using assms(2) by (intro smali_dirs_none) (simp add: path_name_child)
  then show ?thesis
    using assms(1) by (simp add: find_smali_references_def Let_def)
qed

lemma find_smali_references_unexamined:
  assumes "listdir E (Path apk_dir) = Inr (pre @ n # post)"
    and "\<forall>x\<in>set pre. \<exists>d. is_dir E (child (Path apk_dir) x) = Inr d"
    and "is_dir E (child (Path apk_dir) n) = Inl e"
  shows "find_smali_references E apk_dir pattern case_sensitive = (Inl e, [])"
proof -
  have "smali_dirs E (map (child (Path apk_dir)) pre @ child (Path apk_dir) n
                      # map (child (Path apk_dir)) post) = Inl e"
    using assms(2,3) by (intro smali_dirs_raises) simp_all
  then show ?thesis
    using assms(1) by (simp add: find_smali_references_def Let_def)
qed

lemma call_find_smali_references_bound:
  "call_find_smali_references E [(''apk_dir'', VStr apk_dir), (''pattern'', VStr pattern)] =
     Some (find_smali_references E apk_dir pattern True)"
  by (simp add: call_find_smali_references_def bind_kwargs_def req_str_def bool_or_def)

text \<open>
  Claim C10, amended. When the project directory can be listed, each of its entries
  can be examined (\<^verbatim>\<open>is_dir\<close> returns for it) and none of them is a directory
  whose name starts with \<open>smali\<close>, the handler returns the text
  \<open>No smali directories found\<close> as its result, and the tool call that carries the
  directory and a pattern yields that text with the error flag not set and no
  process requested. When examining an entry raises and the entries before it in
  the listing could be examined, the handler raises that exception, whatever the
  names of the entries are.
\<close>

theorem no_smali_directories_is_a_result:
  "(listdir E (Path apk_dir) = Inr names
      \<and> (\<forall>n\<in>set names. \<exists>d. is_dir E (child (Path apk_dir) n) = Inr d
                               \<and> \<not> (d \<and> startswith n ''smali'')) \<longrightarrow>
      find_smali_references E apk_dir pattern case_sensitive =
        (Inr ''No smali directories found'', [])
      \<and> call_tool E ''find_smali_references''
          [(''apk_dir'', VStr apk_dir), (''pattern'', VStr pattern)] =
        Some (\<lparr>out_text = ''No smali directories found'', isError = False\<rparr>, []))
   \<and> (listdir E (Path apk_dir) = Inr (pre @ n # post)
      \<and> (\<forall>x\<in>set pre. \<exists>d. is_dir E (child (Path apk_dir) x) = Inr d)
      \<and> is_dir E (child (Path apk_dir) n) = Inl e \<longrightarrow>
      find_smali_references E apk_dir pattern case_sensitive = (Inl e, []))"
proof (intro conjI impI)
  assume a: "listdir E (Path apk_dir) = Inr names
      \<and> (\<forall>n\<in>set names. \<exists>d. is_dir E (child (Path apk_dir) n) = Inr d
                               \<and> \<not> (d \<and> startswith n ''smali''))"
  then show "find_smali_references E apk_dir pattern case_sensitive =
        (Inr ''No smali directories found'', [])"
    using find_smali_references_none [of E apk_dir names pattern case_sensitive] by blast
  from a have "find_smali_references E apk_dir pattern True =
        (Inr ''No smali directories found'', [])"
    using find_smali_references_none [of E apk_dir names pattern True] by blast
  then show "call_tool E ''find_smali_references''
          [(''apk_dir'', VStr apk_dir), (''pattern'', VStr pattern)] =
        Some (\<lparr>out_text = ''No smali directories found'', isError = False\<rparr>, [])"
    by (simp add: call_tool_def call_tool_with_def dispatch_def server_handlers_def
          call_find_smali_references_bound)
next
  assume "listdir E (Path apk_dir) = Inr (pre @ n # post)
      \<and> (\<forall>x\<in>set pre. \<exists>d. is_dir E (child (Path apk_dir) x) = Inr d)
      \<and> is_dir E (child (Path apk_dir) n) = Inl e"
  then show "find_smali_references E apk_dir pattern case_sensitive = (Inl e, [])"
    using find_smali_references_unexamined [of E apk_dir pre n post e pattern case_sensitive]
    by blast
qed

lemma demo_listdir_bare: "listdir (demo_env sp) (Path ''/bare'') = Inr [''res'', ''smali.txt'']"
  by (simp add: demo_env_def Path_def path_root_def)

lemma demo_bare_entries:
  "is_dir (demo_env sp) (child (Path ''/bare'') ''res'') = Inr True"
  "is_dir (demo_env sp) (child (Path ''/bare'') ''smali.txt'') = Inr False"
  by (simp_all add: is_dir_def demo_env_def Path_def path_root_def child_def S_ISDIR_def
        demo_dir_stat_def demo_file_stat_def)

lemma demo_bare_no_smali:
  "\<forall>n\<in>set [''res'', ''smali.txt''].
     \<exists>d. is_dir (demo_env sp) (child (Path ''/bare'') n) = Inr d \<and> \<not> (d \<and> startswith n ''smali'')"
  by (auto simp: demo_bare_entries)

lemma demo_listdir_locked: "listdir (demo_env sp) (Path ''/locked'') = Inr [''res'']"
  by (simp add: demo_env_def Path_def path_root_def)

lemma demo_locked_entry:
  "is_dir (demo_env sp) (child (Path ''/locked'') ''res'') = Inl (OSError 13 ''Permission denied'')"
  by (simp add: is_dir_def demo_env_def Path_def path_root_def child_def denied_def)

text \<open>
  The theorem at the directory \<open>/bare\<close>, which holds the directory \<open>res\<close> and the
  plain file \<open>smali.txt\<close>, and at the directory \<open>/locked\<close>, whose entry \<open>res\<close>
  cannot be examined.
\<close>

theorem no_smali_directories_is_a_result_witness:
  "find_smali_references (demo_env spawn_ok) ''/bare'' ''Foo'' False =
     (Inr ''No smali directories found'', [])
   \<and> call_tool (demo_env spawn_ok) ''find_smali_references''
       [(''apk_dir'', VStr ''/bare''), (''pattern'', VStr ''Foo'')] =
     Some (\<lparr>out_text = ''No smali directories found'', isError = False\<rparr>, [])
   \<and> find_smali_references (demo_env spawn_ok) ''/locked'' ''Foo'' False =
     (Inl (OSError 13 ''Permission denied''), [])"
  using no_smali_directories_is_a_result [where E = "demo_env spawn_ok" and apk_dir = "''/bare''"
      and names = "[''res'', ''smali.txt'']" and pattern = "''Foo''" and case_sensitive = False
      and pre = "[]" and n = "''x''" and post = "[]" and e = "OSError 13 ''Permission denied''"]
    no_smali_directories_is_a_result [where E = "demo_env spawn_ok" and apk_dir = "''/locked''"
      and names = "[]" and pattern = "''Foo''" and case_sensitive = False
      and pre = "[]" and n = "''res''" and post = "[]" and e = "OSError 13 ''Permission denied''"]
    demo_listdir_bare [of spawn_ok] demo_bare_no_smali [of spawn_ok]
    demo_listdir_locked [of spawn_ok] demo_locked_entry [of spawn_ok]
  by simp

text \<open>
  Claim C10 as stated fails: the directory \<open>/locked\<close> exists and can be listed, its
  one entry \<open>res\<close> has a name that does not start with \<open>smali\<close>, and the handler
  raises the error of examining that entry, which the tool call reports with the
  error flag set.
\<close>

theorem unexamined_entry_is_a_failure:
  "listdir (demo_env spawn_ok) (Path ''/locked'') = Inr [''res'']
   \<and> \<not> startswith ''res'' ''smali''
   \<and> find_smali_references (demo_env spawn_ok) ''/locked'' ''Foo'' True =
       (Inl (OSError 13 ''Permission denied''), [])
   \<and> call_tool (demo_env spawn_ok) ''find_smali_references''
       [(''apk_dir'', VStr ''/locked''), (''pattern'', VStr ''Foo'')] =
     Some (\<lparr>out_text = ''Error executing find_smali_references: [Errno 13] Permission denied'',
            isError = True\<rparr>, [])"
  using demo_listdir_locked [of spawn_ok] demo_locked_entry [of spawn_ok]
  by (simp add: call_tool_def call_tool_with_def dispatch_def server_handlers_def
        call_find_smali_references_bound find_smali_references_def Let_def str_nat_small)

section \<open>Manifest analysis: the first matching category decides\<close>

lemma analyze_lines_map_filter:
  "analyze_lines ls = List.map_filter (\<lambda>l. classify (strip l)) ls"
  by (induction ls) (simp_all add: map_filter_simps split: option.splits)

lemma analyze_manifest_text:
  assumes "exists E (pjoin (Path apk_dir) ''AndroidManifest.xml'') = Inr True"
    and "read_text E (pjoin (Path apk_dir) ''AndroidManifest.xml'') = Inr content"
  shows "fst (analyze_manifest E apk_dir) =
     Inr (''AndroidManifest.xml Analysis:'' @ nl @ nl
          @ (if analyze_lines (split_on (CHR 0x0A) content) = [] then ''No key elements found''
             else join nl (analyze_lines (split_on (CHR 0x0A) content)))
          @ nl @ nl @ ''Full content:'' @ nl @ content)"
  using assms by (simp add: analyze_manifest_def Let_def)

lemma example_lines:
  "analyze_lines (split_on (CHR 0x0A) (permission_line @ nl @ activity_line)) =
     [''Permission: '' @ permission_line, ''Activity: '' @ activity_line]"
  by code_simp

text \<open>
  Claim C6, amended. For a manifest that exists and can be read, the analysis is the
  list of the entries of its lines, in order, joined by newlines (or the text
  \<open>No key elements found\<close>), followed by the full content. Each line, stripped of
  surrounding white space, gives at most one entry, decided by the first test that
  holds, in this order: \<open>package=\<close> gives a package entry; otherwise
  \<open>android:name=\<close> with \<open>activity\<close> in the lower-cased line gives an activity entry;
  otherwise \<open>android:name=\<close> with \<open>service\<close> gives a service entry; otherwise
  \<open>android:name=\<close> with \<open>receiver\<close> gives a receiver entry; otherwise
  \<open>uses-permission\<close> gives a permission entry; otherwise the line gives no entry.
  The entry is the category label followed by the stripped line. The manifest of the
  two lines \<open><uses-permission android:name="X"/>\<close> and \<open><activity android:name=".Main"/>\<close>
  gives exactly one permission entry and one activity entry, each with the text of
  its line.
\<close>

theorem manifest_line_categories:
  "(exists E (pjoin (Path apk_dir) ''AndroidManifest.xml'') = Inr True
      \<and> read_text E (pjoin (Path apk_dir) ''AndroidManifest.xml'') = Inr content \<longrightarrow>
      fst (analyze_manifest E apk_dir) =
        Inr (''AndroidManifest.xml Analysis:'' @ nl @ nl
             @ (if analyze_lines (split_on (CHR 0x0A) content) = [] then ''No key elements found''
                else join nl (analyze_lines (split_on (CHR 0x0A) content)))
             @ nl @ nl @ ''Full content:'' @ nl @ content))
   \<and> analyze_lines ls = List.map_filter (\<lambda>l. classify (strip l)) ls
   \<and> (contains ''package='' l \<longrightarrow> classify l = Some (''Package: '' @ l))
   \<and> (\<not> contains ''package='' l \<and> contains ''android:name='' l
        \<and> contains ''activity'' (lower l) \<longrightarrow>
        classify l = Some (''Activity: '' @ l))
   \<and> (\<not> contains ''package='' l \<and> contains ''android:name='' l
        \<and> \<not> contains ''activity'' (lower l) \<and> contains ''service'' (lower l) \<longrightarrow>
        classify l = Some (''Service: '' @ l))
   \<and> (\<not> contains ''package='' l \<and> contains ''android:name='' l
        \<and> \<not> contains ''activity'' (lower l) \<and> \<not> contains ''service'' (lower l)
        \<and> contains ''receiver'' (lower l) \<longrightarrow>
        classify l = Some (''Receiver: '' @ l))
   \<and> (\<not> contains ''package='' l
        \<and> \<not> (contains ''android:name='' l
             \<and> (contains ''activity'' (lower l) \<or> contains ''service'' (lower l)
                 \<or> contains ''receiver'' (lower l)))
        \<and> contains ''uses-permission'' l \<longrightarrow>
        classify l = Some (''Permission: '' @ l))
   \<and> (\<not> contains ''package='' l
        \<and> \<not> (contains ''android:name='' l
             \<and> (contains ''activity'' (lower l) \<or> contains ''service'' (lower l)
                 \<or> contains ''receiver'' (lower l)))
        \<and> \<not> contains ''uses-permission'' l \<longrightarrow>
        classify l = None)
   \<and> analyze_lines (split_on (CHR 0x0A) (permission_line @ nl @ activity_line)) =
       [''Permission: '' @ permission_line, ''Activity: '' @ activity_line]"
proof (intro conjI impI)
  assume "exists E (pjoin (Path apk_dir) ''AndroidManifest.xml'') = Inr True
      \<and> read_text E (pjoin (Path apk_dir) ''AndroidManifest.xml'') = Inr content"
  then show "fst (analyze_manifest E apk_dir) =
        Inr (''AndroidManifest.xml Analysis:'' @ nl @ nl
             @ (if analyze_lines (split_on (CHR 0x0A) content) = [] then ''No key elements found''
                else join nl (analyze_lines (split_on (CHR 0x0A) content)))
             @ nl @ nl @ ''Full content:'' @ nl @ content)"
    using analyze_manifest_text by blast
next
  show "analyze_lines ls = List.map_filter (\<lambda>l. classify (strip l)) ls"
    by (rule analyze_lines_map_filter)
next
  show "analyze_lines (split_on (CHR 0x0A) (permission_line @ nl @ activity_line)) =
       [''Permission: '' @ permission_line, ''Activity: '' @ activity_line]"
    by (rule example_lines)
qed (simp_all add: classify_def)

lemma demo_manifest_proj:
  "exists (demo_env sp) (pjoin (Path ''/proj'') ''AndroidManifest.xml'') = Inr True"
  "read_text (demo_env sp) (pjoin (Path ''/proj'') ''AndroidManifest.xml'') = Inr demo_manifest"
  by (simp_all add: exists_def demo_env_def pjoin_def Path_def path_root_def)

lemma demo_manifest_svc:
  "exists (demo_env sp) (pjoin (Path ''/svc'') ''AndroidManifest.xml'') = Inr True"
  "read_text (demo_env sp) (pjoin (Path ''/svc'') ''AndroidManifest.xml'') =
     Inr foreground_service_line"
  by (simp_all add: exists_def demo_env_def pjoin_def Path_def path_root_def)

lemma demo_line_tests:
  "contains ''package='' package_line"
  "\<not> contains ''package='' activity_line"
  "contains ''android:name='' activity_line"
  "contains ''activity'' (lower activity_line)"
  "\<not> contains ''package='' foreground_service_line"
  "contains ''android:name='' foreground_service_line"
  "\<not> contains ''activity'' (lower foreground_service_line)"
  "contains ''service'' (lower foreground_service_line)"
  "\<not> contains ''package='' receiver_line"
  "contains ''android:name='' receiver_line"
  "\<not> contains ''activity'' (lower receiver_line)"
  "\<not> contains ''service'' (lower receiver_line)"
  "contains ''receiver'' (lower receiver_line)"
  "\<not> contains ''package='' permission_line"
  "contains ''android:name='' permission_line"
  "\<not> contains ''activity'' (lower permission_line)"
  "\<not> contains ''service'' (lower permission_line)"
  "\<not> contains ''receiver'' (lower permission_line)"
  "contains ''uses-permission'' permission_line"
  "\<not> contains ''package='' ''</manifest>''"
  "\<not> contains ''android:name='' ''</manifest>''"
  "\<not> contains ''uses-permission'' ''</manifest>''"
  by code_simp+

text \<open>
  The theorem at the project \<open>/proj\<close>, whose manifest is the two lines of the claim,
  and at one line of each kind.
\<close>

theorem manifest_line_categories_witness:
  "fst (analyze_manifest (demo_env spawn_ok) ''/proj'') =
     Inr (''AndroidManifest.xml Analysis:'' @ nl @ nl
          @ ''Permission: '' @ permission_line @ nl @ ''Activity: '' @ activity_line
          @ nl @ nl @ ''Full content:'' @ nl @ permission_line @ nl @ activity_line)
   \<and> classify package_line = Some (''Package: '' @ package_line)
   \<and> classify activity_line = Some (''Activity: '' @ activity_line)
   \<and> classify foreground_service_line = Some (''Service: '' @ foreground_service_line)
   \<and> classify receiver_line = Some (''Receiver: '' @ receiver_line)
   \<and> classify permission_line = Some (''Permission: '' @ permission_line)
   \<and> classify ''</manifest>'' = None"
proof -
  have 0: "fst (analyze_manifest (demo_env spawn_ok) ''/proj'') =
     Inr (''AndroidManifest.xml Analysis:'' @ nl @ nl
          @ ''Permission: '' @ permission_line @ nl @ ''Activity: '' @ activity_line
          @ nl @ nl @ ''Full content:'' @ nl @ permission_line @ nl @ activity_line)"
    using manifest_line_categories [of "demo_env spawn_ok" "''/proj''" demo_manifest "[]" "[]"]
      demo_manifest_proj [of spawn_ok]
    by (simp add: demo_manifest_def)
  have 1: "classify package_line = Some (''Package: '' @ package_line)"
    using manifest_line_categories [of "demo_env spawn_ok" "''/proj''" demo_manifest "[]" package_line]
    by (simp add: demo_line_tests)
  have 2: "classify activity_line = Some (''Activity: '' @ activity_line)"
    using manifest_line_categories [of "demo_env spawn_ok" "''/proj''" demo_manifest "[]" activity_line]
    by (simp add: demo_line_tests)
  have 3: "classify foreground_service_line = Some (''Service: '' @ foreground_service_line)"
    using manifest_line_categories [of "demo_env spawn_ok" "''/proj''" demo_manifest "[]"
        foreground_service_line]
    by (simp add: demo_line_tests)
  have 4: "classify receiver_line = Some (''Receiver: '' @ receiver_line)"
    using manifest_line_categories [of "demo_env spawn_ok" "''/proj''" demo_manifest "[]" receiver_line]
    by (simp add: demo_line_tests)
  have 5: "classify permission_line = Some (''Permission: '' @ permission_line)"
    using manifest_line_categories [of "demo_env spawn_ok" "''/proj''" demo_manifest "[]" permission_line]
    by (simp add: demo_line_tests)
  have 6: "classify ''</manifest>'' = None"
    using manifest_line_categories [of "demo_env spawn_ok" "''/proj''" demo_manifest "[]" "''</manifest>''"]
    by (simp add: demo_line_tests)
  from 0 1 2 3 4 5 6 show ?thesis by simp
qed

lemma foreground_service_facts:
  "contains ''uses-permission'' foreground_service_line"
  "analyze_lines (split_on (CHR 0x0A) foreground_service_line) =
     [''Service: '' @ foreground_service_line]"
  by code_simp+

text \<open>
  Claim C6 as stated fails: the line that declares the permission
  \<open>android.permission.FOREGROUND_SERVICE\<close> contains \<open>uses-permission\<close>, and the
  manifest of the project \<open>/svc\<close>, which consists of it, is reported with one
  service entry and no permission entry.
\<close>

theorem permission_reported_as_service:
  "contains ''uses-permission'' foreground_service_line
   \<and> read_text (demo_env spawn_ok) (pjoin (Path ''/svc'') ''AndroidManifest.xml'') =
       Inr foreground_service_line
   \<and> fst (analyze_manifest (demo_env spawn_ok) ''/svc'') =
       Inr (''AndroidManifest.xml Analysis:'' @ nl @ nl
            @ ''Service: '' @ foreground_service_line
            @ nl @ nl @ ''Full content:'' @ nl @ foreground_service_line)"
  using demo_manifest_svc [of spawn_ok]
  by (simp add: analyze_manifest_def Let_def foreground_service_facts)

section \<open>Reading a resource: every request is answered with a text\<close>











end
